theory Spec2Isabelle
  imports Complex_Main
begin

section \<open>C floats\<close>

text \<open>
  A C \<^verbatim>\<open>float\<close> is modelled by its IEEE-754 classes: a finite value, the two infinities
  and NaN. The operations \<open>fadd\<close>, \<open>fmul\<close>, \<open>fdiv\<close> and \<open>sqrtf\<close> below compute the
  exact real result on finite values; \<open>fround\<close> rounds a result to the nearest float.
  Overflow is not modelled, and zero is unsigned (it behaves as \<^verbatim>\<open>+0.0f\<close>). The special
  values follow IEEE-754: NaN propagates, \<^verbatim>\<open>0 * inf\<close>, \<^verbatim>\<open>inf - inf\<close>, \<^verbatim>\<open>0 / 0\<close> and
  \<^verbatim>\<open>inf / inf\<close> are NaN, a non-zero finite value divided by zero is an infinity, and every
  comparison with NaN is false.
\<close>

datatype c_float = Fin real | PInf | NInf | NaN

fun fneg :: "c_float \<Rightarrow> c_float" where
  "fneg (Fin a) = Fin (- a)"
| "fneg PInf = NInf"
| "fneg NInf = PInf"
| "fneg NaN = NaN"

fun fadd :: "c_float \<Rightarrow> c_float \<Rightarrow> c_float" where
  "fadd (Fin a) (Fin b) = Fin (a + b)"
| "fadd NaN y = NaN"
| "fadd x NaN = NaN"
| "fadd PInf NInf = NaN"
| "fadd NInf PInf = NaN"
| "fadd PInf y = PInf"
| "fadd x PInf = PInf"
| "fadd NInf y = NInf"
| "fadd x NInf = NInf"

definition fsub :: "c_float \<Rightarrow> c_float \<Rightarrow> c_float" where
  "fsub x y = fadd x (fneg y)"

fun fsign :: "c_float \<Rightarrow> int" where
  "fsign (Fin a) = (if a = 0 then 0 else if 0 < a then 1 else - 1)"
| "fsign PInf = 1"
| "fsign NInf = - 1"
| "fsign NaN = 0"

definition inf_of_sign :: "int \<Rightarrow> c_float" where
  "inf_of_sign k = (if k = 0 then NaN else if 0 < k then PInf else NInf)"

fun fmul :: "c_float \<Rightarrow> c_float \<Rightarrow> c_float" where
  "fmul (Fin a) (Fin b) = Fin (a * b)"
| "fmul NaN y = NaN"
| "fmul x NaN = NaN"
| "fmul x y = inf_of_sign (fsign x * fsign y)"

fun fdiv :: "c_float \<Rightarrow> c_float \<Rightarrow> c_float" where
  "fdiv (Fin a) (Fin b) = (if b = 0 then inf_of_sign (fsign (Fin a)) else Fin (a / b))"
| "fdiv NaN y = NaN"
| "fdiv x NaN = NaN"
| "fdiv (Fin a) y = Fin 0"
| "fdiv x (Fin b) = inf_of_sign (fsign x * (if b < 0 then - 1 else 1))"
| "fdiv x y = NaN"

fun sqrtf :: "c_float \<Rightarrow> c_float" where
  "sqrtf (Fin a) = (if a < 0 then NaN else Fin (sqrt a))"
| "sqrtf PInf = PInf"
| "sqrtf NInf = NaN"
| "sqrtf NaN = NaN"

text \<open>
  Rounding to the nearest float: a float has a significand of 24 bits, so a value \<open>x\<close>
  with \<^verbatim>\<open>2^e <= |x| < 2^(e+1)\<close> is rounded to the nearest multiple of \<^verbatim>\<open>2^(e-23)\<close>. A value
  halfway between two floats is rounded up rather than to the even one (no quotient or
  square root the engines compute is such a value), and subnormal results and overflow
  are not modelled. IEEE-754 division and square root return the exact result rounded in
  this way: they are \<open>fround\<close> of \<open>fdiv\<close> and of \<open>sqrtf\<close>. The engines' divisions and
  square roots are modelled so; their sums and products, and the conversions between
  degrees and radians, are left exact.
\<close>

definition float_round :: "real \<Rightarrow> real" where
  "float_round x = (if x = 0 then 0 else
     (let u = 2 powr (of_int \<lfloor>log 2 \<bar>x\<bar>\<rfloor> - 23) in of_int (round (x / u)) * u))"

fun fround :: "c_float \<Rightarrow> c_float" where
  "fround (Fin a) = Fin (float_round a)"
| "fround PInf = PInf"
| "fround NInf = NInf"
| "fround NaN = NaN"

fun flt :: "c_float \<Rightarrow> c_float \<Rightarrow> bool" where
  "flt (Fin a) (Fin b) = (a < b)"
| "flt NaN y = False"
| "flt x NaN = False"
| "flt x NInf = False"
| "flt PInf y = False"
| "flt x y = True"

definition fgt :: "c_float \<Rightarrow> c_float \<Rightarrow> bool" where
  "fgt x y = flt y x"

definition fle :: "c_float \<Rightarrow> c_float \<Rightarrow> bool" where
  "fle x y = (x \<noteq> NaN \<and> y \<noteq> NaN \<and> \<not> flt y x)"

text \<open>
  The cast \<^verbatim>\<open>(float)i\<close> of an \<^verbatim>\<open>int\<close>. It is exact for \<^verbatim>\<open>|i| <= 2^24\<close>; the rounding of a
  larger integer is not modelled.
\<close>

definition float_of_int :: "int \<Rightarrow> c_float" where
  "float_of_int i = Fin (of_int i)"

text \<open>
  Modelled from the spec: the macros \<^verbatim>\<open>MAX\<close>, \<^verbatim>\<open>MIN\<close>, \<^verbatim>\<open>DEG2RAD\<close> and \<^verbatim>\<open>RAD2DEG\<close> of the
  framework's utility header, which is not among the sources: the two-way conditional
  expressions \<^verbatim>\<open>(a > b ? a : b)\<close> and \<^verbatim>\<open>(a < b ? a : b)\<close>, and the conversions
  \<^verbatim>\<open>x * PI / 180.0f\<close> and \<^verbatim>\<open>x * 180.0f / PI\<close>.
\<close>

definition MAX_f :: "c_float \<Rightarrow> c_float \<Rightarrow> c_float" where
  "MAX_f a b = (if fgt a b then a else b)"

definition MIN_f :: "c_float \<Rightarrow> c_float \<Rightarrow> c_float" where
  "MIN_f a b = (if flt a b then a else b)"

definition DEG2RAD :: "c_float \<Rightarrow> c_float" where
  "DEG2RAD x = fdiv (fmul x (Fin pi)) (Fin 180)"

definition RAD2DEG :: "c_float \<Rightarrow> c_float" where
  "RAD2DEG x = fdiv (fmul x (Fin 180)) (Fin pi)"

subsection \<open>Complex floats\<close>

text \<open>
  Modelled from the spec: the complex-number wrappers of \<^verbatim>\<open>saf_complex.h\<close> (not among
  the sources). A \<^verbatim>\<open>float_complex\<close> is a pair of floats, and the wrappers are the
  componentwise formulas of complex arithmetic.
\<close>

type_synonym float_complex = "c_float \<times> c_float"

definition cmplxf :: "c_float \<Rightarrow> c_float \<Rightarrow> float_complex" where
  "cmplxf re im = (re, im)"

definition crealf :: "float_complex \<Rightarrow> c_float" where
  "crealf z = fst z"

definition cimagf :: "float_complex \<Rightarrow> c_float" where
  "cimagf z = snd z"

definition ccaddf :: "float_complex \<Rightarrow> float_complex \<Rightarrow> float_complex" where
  "ccaddf x y = (fadd (fst x) (fst y), fadd (snd x) (snd y))"

definition ccmulf :: "float_complex \<Rightarrow> float_complex \<Rightarrow> float_complex" where
  "ccmulf x y = (fsub (fmul (fst x) (fst y)) (fmul (snd x) (snd y)),
                 fadd (fmul (fst x) (snd y)) (fmul (snd x) (fst y)))"

definition crmulf :: "float_complex \<Rightarrow> c_float \<Rightarrow> float_complex" where
  "crmulf x r = (fmul (fst x) r, fmul (snd x) r)"

definition czero :: float_complex where
  "czero = (Fin 0, Fin 0)"

section \<open>Loops and BLAS\<close>

text \<open>The counting loop \<^verbatim>\<open>for (i = lo; i < hi; i++) body\<close> over a state.\<close>

definition for_loop :: "nat \<Rightarrow> nat \<Rightarrow> (nat \<Rightarrow> 's \<Rightarrow> 's) \<Rightarrow> 's \<Rightarrow> 's" where
  "for_loop lo hi body s = fold body [lo..<hi] s"

text \<open>
  The array loop \<^verbatim>\<open>for (i = lo; i < hi; i++) a[i] = g(i, a[i])\<close>: each pass writes the
  cell (or row) of its own index, computed from the index and the cell's old content.
\<close>

definition for_cells :: "nat \<Rightarrow> nat \<Rightarrow> (nat \<Rightarrow> 'a \<Rightarrow> 'a) \<Rightarrow> (nat \<Rightarrow> 'a) \<Rightarrow> (nat \<Rightarrow> 'a)" where
  "for_cells lo hi g a = for_loop lo hi (\<lambda>i a1. a1(i := g i (a1 i))) a"

text \<open>\<^verbatim>\<open>memcpy\<close> and \<^verbatim>\<open>memset\<close> over the first \<open>n\<close> cells of an array.\<close>

definition memcpy_n :: "nat \<Rightarrow> (nat \<Rightarrow> 'a) \<Rightarrow> (nat \<Rightarrow> 'a) \<Rightarrow> (nat \<Rightarrow> 'a)" where
  "memcpy_n n dst src = for_cells 0 n (\<lambda>k old. src k) dst"

definition memset_n :: "nat \<Rightarrow> 'a \<Rightarrow> (nat \<Rightarrow> 'a) \<Rightarrow> (nat \<Rightarrow> 'a)" where
  "memset_n n v dst = for_cells 0 n (\<lambda>k old. v) dst"

text \<open>
  \<^verbatim>\<open>cblas_cgemm\<close> and \<^verbatim>\<open>cblas_sgemm\<close> (row major, no transposition) as the engines call
  them: \<^verbatim>\<open>alpha = 1\<close> and \<^verbatim>\<open>beta = 0\<close>, so the \<open>M \<times> N\<close> leading block of \<open>C\<close> becomes
  the product of the \<open>M \<times> K\<close> block of \<open>A\<close> and the \<open>K \<times> N\<close> block of \<open>B\<close>, and the rest
  of \<open>C\<close> is left alone. The inner sum runs over \<open>l = 0, ..., K - 1\<close> in that order.
\<close>

definition cdot :: "nat \<Rightarrow> (nat \<Rightarrow> float_complex) \<Rightarrow> (nat \<Rightarrow> float_complex) \<Rightarrow> float_complex" where
  "cdot K a b = foldl (\<lambda>acc l. ccaddf acc (ccmulf (a l) (b l))) czero [0..<K]"

definition cblas_cgemm ::
  "nat \<Rightarrow> nat \<Rightarrow> nat \<Rightarrow> (nat \<Rightarrow> nat \<Rightarrow> float_complex) \<Rightarrow> (nat \<Rightarrow> nat \<Rightarrow> float_complex)
     \<Rightarrow> (nat \<Rightarrow> nat \<Rightarrow> float_complex) \<Rightarrow> (nat \<Rightarrow> nat \<Rightarrow> float_complex)" where
  "cblas_cgemm M N K A B C =
     for_cells 0 M (\<lambda>i row. for_cells 0 N (\<lambda>j old. cdot K (A i) (\<lambda>l. B l j)) row) C"

definition sdot :: "nat \<Rightarrow> (nat \<Rightarrow> c_float) \<Rightarrow> (nat \<Rightarrow> c_float) \<Rightarrow> c_float" where
  "sdot K a b = foldl (\<lambda>acc l. fadd acc (fmul (a l) (b l))) (Fin 0) [0..<K]"

definition cblas_sgemm ::
  "nat \<Rightarrow> nat \<Rightarrow> nat \<Rightarrow> (nat \<Rightarrow> nat \<Rightarrow> c_float) \<Rightarrow> (nat \<Rightarrow> nat \<Rightarrow> c_float)
     \<Rightarrow> (nat \<Rightarrow> nat \<Rightarrow> c_float) \<Rightarrow> (nat \<Rightarrow> nat \<Rightarrow> c_float)" where
  "cblas_sgemm M N K A B C =
     for_cells 0 M (\<lambda>i row. for_cells 0 N (\<lambda>j old. sdot K (A i) (\<lambda>l. B l j)) row) C"

section \<open>Build configuration\<close>

text \<open>
  The compile-time constants, tables and switches the two engines use. Their header
  files are not among the sources, so they are parameters of the model: every theorem
  holds for all values of them.
\<close>

record config =
  FRAME_SIZE :: nat
  HOP_SIZE :: nat
  TIME_SLOTS :: nat
  HYBRID_BANDS :: nat
  NUM_EARS :: nat
  MAX_NUM_SH_SIGNALS :: nat
  MAX_SH_ORDER :: nat
  MAX_NUM_INPUTS :: nat
  NORM_N3D :: int
  NORM_SN3D :: int
  afCenterFreq44100 :: "nat \<Rightarrow> real"
  afCenterFreq48e3 :: "nat \<Rightarrow> real"
  ENABLE_FADE_IN_OUT :: bool
  APPLE :: bool

text \<open>The time-frequency transform: its handle \<open>'h\<close> and the two hop transforms.\<close>

record 'h afSTFT =
  afSTFTforward :: "'h \<Rightarrow> (nat \<Rightarrow> nat \<Rightarrow> c_float) \<Rightarrow> (nat \<Rightarrow> nat \<Rightarrow> float_complex)
                      \<Rightarrow> 'h \<times> (nat \<Rightarrow> nat \<Rightarrow> float_complex)"
  afSTFTinverse :: "'h \<Rightarrow> (nat \<Rightarrow> nat \<Rightarrow> float_complex) \<Rightarrow> (nat \<Rightarrow> nat \<Rightarrow> c_float)
                      \<Rightarrow> 'h \<times> (nat \<Rightarrow> nat \<Rightarrow> c_float)"

section \<open>The binaural Ambisonic decoder (ambi\_bin.c)\<close>

datatype INPUT_ORDERS =
  INPUT_OMNI | INPUT_ORDER_FIRST | INPUT_ORDER_SECOND | INPUT_ORDER_THIRD
  | INPUT_ORDER_FOURTH | INPUT_ORDER_FIFTH | INPUT_ORDER_SIXTH | INPUT_ORDER_SEVENTH

text \<open>
  Strings handed to \<^verbatim>\<open>malloc\<close> and \<^verbatim>\<open>strcpy\<close> live in a heap: a list of blocks, a
  pointer being the index of its block. \<^verbatim>\<open>malloc\<close> returns a block no live pointer
  refers to; nothing in the two files frees a path.
\<close>

type_synonym heap = "string list"

definition malloc_strcpy :: "heap \<Rightarrow> string \<Rightarrow> heap \<times> nat" where
  "malloc_strcpy h path = (h @ [path], length h)"

record codecPars =
  sofa_filepath :: "nat option"
  M_dec :: "nat \<Rightarrow> nat \<Rightarrow> nat \<Rightarrow> float_complex"
  N_hrir_dirs :: int
  hrir_len :: int
  hrir_fs :: int

record 'h ambi_bin_data =
  hSTFT :: 'h
  STFTInputFrameTF :: "nat \<Rightarrow> nat \<Rightarrow> nat \<Rightarrow> float_complex"
  STFTOutputFrameTF :: "nat \<Rightarrow> nat \<Rightarrow> nat \<Rightarrow> float_complex"
  tempHopFrameTD :: "nat \<Rightarrow> nat \<Rightarrow> c_float"
  SHFrameTD :: "nat \<Rightarrow> nat \<Rightarrow> c_float"
  SHframeTF :: "nat \<Rightarrow> nat \<Rightarrow> nat \<Rightarrow> float_complex"
  prev_SHframeTF :: "nat \<Rightarrow> nat \<Rightarrow> nat \<Rightarrow> float_complex"
  binframeTF :: "nat \<Rightarrow> nat \<Rightarrow> nat \<Rightarrow> float_complex"
  current_M :: "nat \<Rightarrow> nat \<Rightarrow> nat \<Rightarrow> float_complex"
  prev_M :: "nat \<Rightarrow> nat \<Rightarrow> nat \<Rightarrow> float_complex"
  interpolator :: "nat \<Rightarrow> c_float"
  pars :: codecPars
  strings :: heap
  fs :: int
  freqVector :: "nat \<Rightarrow> c_float"
  reInitCodec :: int
  reInitTFT :: int
  EQ :: "nat \<Rightarrow> c_float"
  useDefaultHRIRsFLAG :: int
  chOrdering :: int
  norm :: int
  rE_WEIGHT :: int
  enableEQ :: int
  yaw :: c_float
  pitch :: c_float
  roll :: c_float
  bFlipYaw :: int
  bFlipPitch :: int
  bFlipRoll :: int
  orderSelected :: INPUT_ORDERS
  order :: int
  nSH :: int
  new_nSH :: int

subsection \<open>ambi\_bin\_init\<close>

text \<open>
  The ramp is \<^verbatim>\<open>(float)i*1.0f/(float)TIME_SLOTS\<close>: the product by \<^verbatim>\<open>1.0f\<close> is exact, the
  quotient is rounded.
\<close>

definition ambi_bin_init :: "config \<Rightarrow> 'h ambi_bin_data \<Rightarrow> int \<Rightarrow> 'h ambi_bin_data" where
  "ambi_bin_init cfg pData sampleRate =
     pData\<lparr>
       fs := sampleRate,
       freqVector := for_cells 0 (HYBRID_BANDS cfg) (\<lambda>band old.
           if sampleRate = 44100 then Fin (afCenterFreq44100 cfg band)
           else Fin (afCenterFreq48e3 cfg band)) (freqVector pData),
       interpolator := for_loop 1 (TIME_SLOTS cfg + 1) (\<lambda>i v. v(i - 1 :=
           fround (fdiv (fmul (float_of_int (int i)) (Fin 1))
                        (float_of_int (int (TIME_SLOTS cfg))))))
           (interpolator pData),
       current_M := (\<lambda>band ear ch. czero),
       prev_M := (\<lambda>band ear ch. czero),
       prev_SHframeTF := (\<lambda>band ch t. czero)\<rparr>"

subsection \<open>Collaborators of ambi\_bin.c\<close>

text \<open>
  Functions \<^verbatim>\<open>ambi_bin.c\<close> calls whose code is not among the sources: the two
  rebuilds of \<^verbatim>\<open>ambi_bin_internal.c\<close>, the filterbank, and the rotation-matrix
  generators (\<^verbatim>\<open>getSHrotMtxReal\<close> returns the flat \<open>nSH \<times> nSH\<close> array it fills).
\<close>

record 'h ambi_bin_ext =
  ambi_bin_initTFT :: "'h ambi_bin_data \<Rightarrow> 'h ambi_bin_data"
  ambi_bin_initCodec :: "'h ambi_bin_data \<Rightarrow> 'h ambi_bin_data"
  ambi_bin_stft :: "'h afSTFT"
  yawPitchRoll2Rzyx :: "c_float \<Rightarrow> c_float \<Rightarrow> c_float \<Rightarrow> (nat \<Rightarrow> nat \<Rightarrow> c_float)"
  getSHrotMtxReal :: "(nat \<Rightarrow> nat \<Rightarrow> c_float) \<Rightarrow> int \<Rightarrow> (nat \<Rightarrow> c_float)"

subsection \<open>ambi\_bin\_process\<close>

text \<open>The block "reinitialise if needed" at the head of \<^verbatim>\<open>ambi_bin_process\<close>.\<close>

definition ambi_bin_process_reinit :: "'h ambi_bin_ext \<Rightarrow> 'h ambi_bin_data \<Rightarrow> 'h ambi_bin_data" where
  "ambi_bin_process_reinit ext pData =
     (let p1 = (if reInitTFT pData = 1
                then (ambi_bin_initTFT ext (pData\<lparr>reInitTFT := 2\<rparr>))\<lparr>reInitTFT := 0\<rparr>
                else pData)
      in (if reInitCodec p1 = 1
          then (ambi_bin_initCodec ext (p1\<lparr>reInitCodec := 2\<rparr>))\<lparr>reInitCodec := 0\<rparr>
          else p1))"

text \<open>"Load time-domain data".\<close>

definition ambi_bin_load_TD ::
  "config \<Rightarrow> (nat \<Rightarrow> nat \<Rightarrow> c_float) \<Rightarrow> int \<Rightarrow> (nat \<Rightarrow> nat \<Rightarrow> c_float) \<Rightarrow> (nat \<Rightarrow> nat \<Rightarrow> c_float)" where
  "ambi_bin_load_TD cfg inputs nInputs td =
     (let n = nat (min (int (MAX_NUM_SH_SIGNALS cfg)) nInputs) in
      for_cells n (MAX_NUM_SH_SIGNALS cfg) (\<lambda>i row. memset_n (FRAME_SIZE cfg) (Fin 0) row)
        (for_cells 0 n (\<lambda>i row. memcpy_n (FRAME_SIZE cfg) row (inputs i)) td))"

text \<open>The fade-in of \<^verbatim>\<open>ENABLE_FADE_IN_OUT\<close> builds.\<close>

definition ambi_bin_fade_in :: "config \<Rightarrow> (nat \<Rightarrow> nat \<Rightarrow> c_float) \<Rightarrow> (nat \<Rightarrow> nat \<Rightarrow> c_float)" where
  "ambi_bin_fade_in cfg td =
     for_cells 0 (MAX_NUM_SH_SIGNALS cfg) (\<lambda>ch row.
       for_cells 0 (FRAME_SIZE cfg) (\<lambda>i x.
         fmul x (fround (fdiv (float_of_int (int i)) (float_of_int (int (FRAME_SIZE cfg)))))) row) td"

text \<open>"Account for input normalisation scheme"; \<open>o[n] = n * n\<close>.\<close>

definition ambi_bin_apply_norm ::
  "config \<Rightarrow> int \<Rightarrow> int \<Rightarrow> (nat \<Rightarrow> nat \<Rightarrow> c_float) \<Rightarrow> (nat \<Rightarrow> nat \<Rightarrow> c_float)" where
  "ambi_bin_apply_norm cfg nrm ord td =
     (if nrm = NORM_N3D cfg then td
      else if nrm = NORM_SN3D cfg then
        for_loop 0 (nat (ord + 1)) (\<lambda>n td1.
          for_cells (n * n) ((n + 1) * (n + 1)) (\<lambda>ch row.
            for_cells 0 (FRAME_SIZE cfg) (\<lambda>i x.
              fmul x (fround (sqrtf (fadd (fmul (Fin 2) (float_of_int (int n))) (Fin 1))))) row) td1) td
      else td)"

text \<open>"Apply time-frequency transform (TFT)": one forward transform per time slot.\<close>

definition ambi_bin_forward_TFT ::
  "config \<Rightarrow> 'h afSTFT \<Rightarrow> nat \<Rightarrow> (nat \<Rightarrow> nat \<Rightarrow> c_float)
     \<Rightarrow> 'h \<times> (nat \<Rightarrow> nat \<Rightarrow> c_float) \<times> (nat \<Rightarrow> nat \<Rightarrow> nat \<Rightarrow> float_complex)
     \<Rightarrow> 'h \<times> (nat \<Rightarrow> nat \<Rightarrow> c_float) \<times> (nat \<Rightarrow> nat \<Rightarrow> nat \<Rightarrow> float_complex)" where
  "ambi_bin_forward_TFT cfg fb nSH1 td st =
     for_loop 0 (TIME_SLOTS cfg) (\<lambda>t (h, hop, X).
       (let hop1 = for_cells 0 nSH1 (\<lambda>ch row.
                     for_cells 0 (HOP_SIZE cfg) (\<lambda>sample old. td ch (sample + t * HOP_SIZE cfg)) row) hop;
            r = afSTFTforward fb h hop1 (X t)
        in (fst r, hop1, X(t := snd r)))) st"

definition ambi_bin_fill_SHframeTF ::
  "config \<Rightarrow> nat \<Rightarrow> (nat \<Rightarrow> nat \<Rightarrow> nat \<Rightarrow> float_complex) \<Rightarrow> (nat \<Rightarrow> nat \<Rightarrow> nat \<Rightarrow> float_complex)
     \<Rightarrow> (nat \<Rightarrow> nat \<Rightarrow> nat \<Rightarrow> float_complex)" where
  "ambi_bin_fill_SHframeTF cfg nSH1 X A =
     for_cells 0 (HYBRID_BANDS cfg) (\<lambda>band Ab.
       for_cells 0 nSH1 (\<lambda>ch row.
         for_cells 0 (TIME_SLOTS cfg) (\<lambda>t old.
           cmplxf (crealf (X t ch band)) (cimagf (X t ch band))) row) Ab) A"

text \<open>
  "Specify rotation matrix". \<^verbatim>\<open>M_rot\<close> is a local array, written only when
  \<^verbatim>\<open>order > 0\<close>; the cells the function never writes are never read, and stand as zero.
\<close>

definition ambi_bin_M_rot ::
  "'h ambi_bin_ext \<Rightarrow> int \<Rightarrow> nat \<Rightarrow> c_float \<Rightarrow> c_float \<Rightarrow> c_float \<Rightarrow> (nat \<Rightarrow> nat \<Rightarrow> float_complex)" where
  "ambi_bin_M_rot ext ord nSH1 y p r =
     (if 0 < ord then
        (let M_rot_tmp = getSHrotMtxReal ext (yawPitchRoll2Rzyx ext y p r) ord in
         for_cells 0 nSH1 (\<lambda>i row.
           for_cells 0 nSH1 (\<lambda>j old. cmplxf (M_rot_tmp (i * nSH1 + j)) (Fin 0)) row)
           (\<lambda>i j. czero))
      else (\<lambda>i j. czero))"

text \<open>"Define mixing matrix per band".\<close>

definition ambi_bin_mixing_matrix ::
  "config \<Rightarrow> int \<Rightarrow> nat \<Rightarrow> (nat \<Rightarrow> nat \<Rightarrow> nat \<Rightarrow> float_complex) \<Rightarrow> (nat \<Rightarrow> nat \<Rightarrow> float_complex)
     \<Rightarrow> (nat \<Rightarrow> nat \<Rightarrow> nat \<Rightarrow> float_complex) \<Rightarrow> (nat \<Rightarrow> nat \<Rightarrow> nat \<Rightarrow> float_complex)" where
  "ambi_bin_mixing_matrix cfg ord nSH1 Mdec M_rot cur =
     for_cells 0 (HYBRID_BANDS cfg) (\<lambda>band Mb.
       if 0 < ord then cblas_cgemm (NUM_EARS cfg) nSH1 nSH1 (Mdec band) M_rot Mb
       else for_cells 0 (NUM_EARS cfg) (\<lambda>i row. memcpy_n nSH1 row (Mdec band i)) Mb) cur"

text \<open>
  "Mix to headphones". \<^verbatim>\<open>temp_binframeTF\<close> is a local array, overwritten for every band.
\<close>

definition ambi_bin_mix ::
  "config \<Rightarrow> nat \<Rightarrow> (nat \<Rightarrow> nat \<Rightarrow> nat \<Rightarrow> float_complex) \<Rightarrow> (nat \<Rightarrow> nat \<Rightarrow> nat \<Rightarrow> float_complex)
     \<Rightarrow> (nat \<Rightarrow> nat \<Rightarrow> nat \<Rightarrow> float_complex) \<Rightarrow> (nat \<Rightarrow> c_float)
     \<Rightarrow> (nat \<Rightarrow> nat \<Rightarrow> float_complex) \<times> (nat \<Rightarrow> nat \<Rightarrow> nat \<Rightarrow> float_complex)
     \<Rightarrow> (nat \<Rightarrow> nat \<Rightarrow> float_complex) \<times> (nat \<Rightarrow> nat \<Rightarrow> nat \<Rightarrow> float_complex)" where
  "ambi_bin_mix cfg nSH1 prevM curM prevSH interp st =
     for_loop 0 (HYBRID_BANDS cfg) (\<lambda>band (temp_binframeTF, bin).
       (let temp1 = cblas_cgemm (NUM_EARS cfg) (TIME_SLOTS cfg) nSH1
                      (prevM band) (prevSH band) temp_binframeTF;
            bin1 = cblas_cgemm (NUM_EARS cfg) (TIME_SLOTS cfg) nSH1
                      (curM band) (prevSH band) (bin band);
            bin2 = for_cells 0 (NUM_EARS cfg) (\<lambda>i row.
                     for_cells 0 (TIME_SLOTS cfg) (\<lambda>j x.
                       ccaddf (crmulf x (interp j))
                              (crmulf (temp1 i j) (fsub (Fin 1) (interp j)))) row) bin1
        in (temp1, bin(band := bin2)))) st"


text \<open>"For next frame".\<close>

definition ambi_bin_keep_SHframeTF ::
  "config \<Rightarrow> nat \<Rightarrow> (nat \<Rightarrow> nat \<Rightarrow> nat \<Rightarrow> float_complex) \<Rightarrow> (nat \<Rightarrow> nat \<Rightarrow> nat \<Rightarrow> float_complex)
     \<Rightarrow> (nat \<Rightarrow> nat \<Rightarrow> nat \<Rightarrow> float_complex)" where
  "ambi_bin_keep_SHframeTF cfg nSH1 shTF prevSH =
     for_cells 0 (HYBRID_BANDS cfg) (\<lambda>band Ab.
       for_cells 0 nSH1 (\<lambda>i row. memcpy_n (TIME_SLOTS cfg) row (shTF band i)) Ab) prevSH"

definition ambi_bin_keep_M ::
  "config \<Rightarrow> nat \<Rightarrow> (nat \<Rightarrow> nat \<Rightarrow> nat \<Rightarrow> float_complex) \<Rightarrow> (nat \<Rightarrow> nat \<Rightarrow> nat \<Rightarrow> float_complex)
     \<Rightarrow> (nat \<Rightarrow> nat \<Rightarrow> nat \<Rightarrow> float_complex)" where
  "ambi_bin_keep_M cfg nSH1 curM prevM =
     for_cells 0 (HYBRID_BANDS cfg) (\<lambda>band Mb.
       for_cells 0 (NUM_EARS cfg) (\<lambda>i row. memcpy_n nSH1 row (curM band i)) Mb) prevM"

text \<open>"Inverse-TFT": the spectra are regrouped by time slot, then one inverse transform per slot.\<close>

definition ambi_bin_fill_STFTOutputFrameTF ::
  "config \<Rightarrow> (nat \<Rightarrow> nat \<Rightarrow> nat \<Rightarrow> float_complex) \<Rightarrow> (nat \<Rightarrow> nat \<Rightarrow> nat \<Rightarrow> float_complex)
     \<Rightarrow> (nat \<Rightarrow> nat \<Rightarrow> nat \<Rightarrow> float_complex)" where
  "ambi_bin_fill_STFTOutputFrameTF cfg bin Y =
     for_loop 0 (HYBRID_BANDS cfg) (\<lambda>band Y1.
       for_loop 0 (NUM_EARS cfg) (\<lambda>ch Y2.
         for_loop 0 (TIME_SLOTS cfg) (\<lambda>t Y3.
           Y3(t := (Y3 t)(ch := (Y3 t ch)(band :=
             cmplxf (crealf (bin band ch t)) (cimagf (bin band ch t)))))) Y2) Y1) Y"

definition write_hop ::
  "config \<Rightarrow> nat \<Rightarrow> (nat \<Rightarrow> c_float) \<Rightarrow> (nat \<Rightarrow> c_float) \<Rightarrow> (nat \<Rightarrow> c_float)" where
  "write_hop cfg t src dst =
     for_loop 0 (HOP_SIZE cfg) (\<lambda>sample d. d(sample + t * HOP_SIZE cfg := src sample)) dst"

definition ambi_bin_inverse_TFT ::
  "config \<Rightarrow> 'h afSTFT \<Rightarrow> int \<Rightarrow> (nat \<Rightarrow> nat \<Rightarrow> nat \<Rightarrow> float_complex)
     \<Rightarrow> 'h \<times> (nat \<Rightarrow> nat \<Rightarrow> c_float) \<times> (nat \<Rightarrow> nat \<Rightarrow> c_float)
     \<Rightarrow> 'h \<times> (nat \<Rightarrow> nat \<Rightarrow> c_float) \<times> (nat \<Rightarrow> nat \<Rightarrow> c_float)" where
  "ambi_bin_inverse_TFT cfg fb nOutputs Y st =
     for_loop 0 (TIME_SLOTS cfg) (\<lambda>t (h, hop, outputs).
       (let r = afSTFTinverse fb h (Y t) hop;
            n = nat (min (int (NUM_EARS cfg)) nOutputs);
            out1 = for_cells 0 n (\<lambda>ch row. write_hop cfg t (snd r ch) row) outputs;
            out2 = for_cells n (nat nOutputs) (\<lambda>ch row. write_hop cfg t (\<lambda>sample. Fin 0) row) out1
        in (fst r, snd r, out2))) st"

text \<open>The fade-out of \<^verbatim>\<open>ENABLE_FADE_IN_OUT\<close> builds.\<close>

definition ambi_bin_fade_out :: "config \<Rightarrow> int \<Rightarrow> (nat \<Rightarrow> nat \<Rightarrow> c_float) \<Rightarrow> (nat \<Rightarrow> nat \<Rightarrow> c_float)" where
  "ambi_bin_fade_out cfg nOutputs outputs =
     for_cells 0 (nat nOutputs) (\<lambda>ch row.
       for_cells 0 (FRAME_SIZE cfg) (\<lambda>i x.
         fmul x (fsub (Fin 1)
           (fround (fdiv (float_of_int (int i + 1)) (float_of_int (int (FRAME_SIZE cfg))))))) row) outputs"

text \<open>The silent branch: \<^verbatim>\<open>memset(outputs[ch], 0, FRAME_SIZE*sizeof(float))\<close> for every channel.\<close>

definition silence :: "config \<Rightarrow> int \<Rightarrow> (nat \<Rightarrow> nat \<Rightarrow> c_float) \<Rightarrow> (nat \<Rightarrow> nat \<Rightarrow> c_float)" where
  "silence cfg nOutputs outputs =
     for_cells 0 (nat nOutputs) (\<lambda>ch row. memset_n (FRAME_SIZE cfg) (Fin 0) row) outputs"

text \<open>
  The decoding branch of \<^verbatim>\<open>ambi_bin_process\<close>, "decode audio to loudspeakers or
  headphones", on the engine state the rebuilds left.
\<close>

definition ambi_bin_process_block ::
  "config \<Rightarrow> 'h ambi_bin_ext \<Rightarrow> bool \<Rightarrow> 'h ambi_bin_data \<Rightarrow> (nat \<Rightarrow> nat \<Rightarrow> c_float)
     \<Rightarrow> (nat \<Rightarrow> nat \<Rightarrow> c_float) \<Rightarrow> int \<Rightarrow> int \<Rightarrow> 'h ambi_bin_data \<times> (nat \<Rightarrow> nat \<Rightarrow> c_float)" where
  "ambi_bin_process_block cfg ext applyFadeIn pData inputs outputs nInputs nOutputs =
     (let ord = order pData;
          nSH1 = nat ((ord + 1) * (ord + 1));
          td0 = ambi_bin_load_TD cfg inputs nInputs (SHFrameTD pData);
          td1 = (if ENABLE_FADE_IN_OUT cfg \<and> applyFadeIn then ambi_bin_fade_in cfg td0 else td0);
          td = ambi_bin_apply_norm cfg (norm pData) ord td1;
          fwd = ambi_bin_forward_TFT cfg (ambi_bin_stft ext) nSH1 td
                  (hSTFT pData, tempHopFrameTD pData, STFTInputFrameTF pData);
          shTF = ambi_bin_fill_SHframeTF cfg nSH1 (snd (snd fwd)) (SHframeTF pData);
          M_rot = ambi_bin_M_rot ext ord nSH1 (yaw pData) (pitch pData) (roll pData);
          curM = ambi_bin_mixing_matrix cfg ord nSH1 (M_dec (pars pData)) M_rot (current_M pData);
          mixed = ambi_bin_mix cfg nSH1 (prev_M pData) curM (prev_SHframeTF pData)
                    (interpolator pData) (\<lambda>i j. czero, binframeTF pData);
          bin = snd mixed;
          prevSH = ambi_bin_keep_SHframeTF cfg nSH1 shTF (prev_SHframeTF pData);
          prevM = ambi_bin_keep_M cfg nSH1 curM (prev_M pData);
          Y = ambi_bin_fill_STFTOutputFrameTF cfg bin (STFTOutputFrameTF pData);
          inv = ambi_bin_inverse_TFT cfg (ambi_bin_stft ext) nOutputs Y
                  (fst fwd, fst (snd fwd), outputs);
          out = snd (snd inv);
          out1 = (if ENABLE_FADE_IN_OUT cfg \<and> (reInitTFT pData \<noteq> 0 \<or> reInitCodec pData \<noteq> 0)
                  then ambi_bin_fade_out cfg nOutputs out else out)
      in (pData\<lparr>
            hSTFT := fst inv,
            tempHopFrameTD := fst (snd inv),
            STFTInputFrameTF := snd (snd fwd),
            STFTOutputFrameTF := Y,
            SHFrameTD := td,
            SHframeTF := shTF,
            current_M := curM,
            binframeTF := bin,
            prev_SHframeTF := prevSH,
            prev_M := prevM\<rparr>, out1))"

text \<open>
  \<^verbatim>\<open>ambi_bin_process\<close>: the engine state and the caller's output buffers, before and
  after. \<^verbatim>\<open>applyFadeIn\<close> is read before the rebuilds, the guard after them.
\<close>

definition ambi_bin_process ::
  "config \<Rightarrow> 'h ambi_bin_ext \<Rightarrow> 'h ambi_bin_data \<Rightarrow> (nat \<Rightarrow> nat \<Rightarrow> c_float) \<Rightarrow> (nat \<Rightarrow> nat \<Rightarrow> c_float)
     \<Rightarrow> int \<Rightarrow> int \<Rightarrow> int \<Rightarrow> int \<Rightarrow> 'h ambi_bin_data \<times> (nat \<Rightarrow> nat \<Rightarrow> c_float)" where
  "ambi_bin_process cfg ext hAmbi inputs outputs nInputs nOutputs nSamples isPlaying =
     (let applyFadeIn = (reInitTFT hAmbi \<noteq> 0 \<or> reInitCodec hAmbi \<noteq> 0);
          pData = ambi_bin_process_reinit ext hAmbi
      in if nSamples = int (FRAME_SIZE cfg) \<and> isPlaying \<noteq> 0
            \<and> reInitCodec pData = 0 \<and> reInitTFT pData = 0
         then ambi_bin_process_block cfg ext applyFadeIn pData inputs outputs nInputs nOutputs
         else (pData, silence cfg nOutputs outputs))"

subsection \<open>Set and get functions of ambi\_bin.c\<close>

definition ambi_bin_refreshSettings :: "'h ambi_bin_data \<Rightarrow> 'h ambi_bin_data" where
  "ambi_bin_refreshSettings pData = pData\<lparr>reInitCodec := 1, reInitTFT := 1\<rparr>"

definition ambi_bin_setUseDefaultHRIRsflag :: "'h ambi_bin_data \<Rightarrow> int \<Rightarrow> 'h ambi_bin_data" where
  "ambi_bin_setUseDefaultHRIRsflag pData newState =
     (if useDefaultHRIRsFLAG pData = 0 \<and> newState \<noteq> 0
      then pData\<lparr>useDefaultHRIRsFLAG := newState, reInitCodec := 1\<rparr>
      else pData)"

definition ambi_bin_setSofaFilePath :: "'h ambi_bin_data \<Rightarrow> string \<Rightarrow> 'h ambi_bin_data" where
  "ambi_bin_setSofaFilePath pData path =
     (let m = malloc_strcpy (strings pData) path in
      pData\<lparr>strings := fst m,
            pars := (pars pData)\<lparr>sofa_filepath := Some (snd m)\<rparr>,
            useDefaultHRIRsFLAG := 0,
            reInitCodec := 1\<rparr>)"

fun order_of_preset :: "INPUT_ORDERS \<Rightarrow> int" where
  "order_of_preset INPUT_OMNI = 0"
| "order_of_preset INPUT_ORDER_FIRST = 1"
| "order_of_preset INPUT_ORDER_SECOND = 2"
| "order_of_preset INPUT_ORDER_THIRD = 3"
| "order_of_preset INPUT_ORDER_FOURTH = 4"
| "order_of_preset INPUT_ORDER_FIFTH = 5"
| "order_of_preset INPUT_ORDER_SIXTH = 6"
| "order_of_preset INPUT_ORDER_SEVENTH = 7"

definition ambi_bin_setInputOrderPreset :: "'h ambi_bin_data \<Rightarrow> INPUT_ORDERS \<Rightarrow> 'h ambi_bin_data" where
  "ambi_bin_setInputOrderPreset pData newPreset =
     (if orderSelected pData \<noteq> newPreset then
        (let p1 = pData\<lparr>orderSelected := newPreset\<rparr>;
             p2 = p1\<lparr>order := order_of_preset (orderSelected p1)\<rparr>;
             p3 = p2\<lparr>new_nSH := (order p2 + 1) * (order p2 + 1)\<rparr>;
             p4 = (if new_nSH p3 \<noteq> nSH p3 then p3\<lparr>reInitTFT := 1\<rparr> else p3)
         in p4\<lparr>reInitCodec := 1\<rparr>)
      else pData)"

definition ambi_bin_setChOrder :: "'h ambi_bin_data \<Rightarrow> int \<Rightarrow> 'h ambi_bin_data" where
  "ambi_bin_setChOrder pData newOrder = pData\<lparr>chOrdering := newOrder\<rparr>"

definition ambi_bin_setNormType :: "'h ambi_bin_data \<Rightarrow> int \<Rightarrow> 'h ambi_bin_data" where
  "ambi_bin_setNormType pData newType = pData\<lparr>norm := newType\<rparr>"

definition ambi_bin_setDecEnableMaxrE :: "'h ambi_bin_data \<Rightarrow> int \<Rightarrow> 'h ambi_bin_data" where
  "ambi_bin_setDecEnableMaxrE pData newState = pData\<lparr>rE_WEIGHT := newState\<rparr>"

definition ambi_bin_setEnableEQ :: "'h ambi_bin_data \<Rightarrow> int \<Rightarrow> 'h ambi_bin_data" where
  "ambi_bin_setEnableEQ pData newState = pData\<lparr>enableEQ := newState\<rparr>"

definition ambi_bin_setYaw :: "'h ambi_bin_data \<Rightarrow> c_float \<Rightarrow> 'h ambi_bin_data" where
  "ambi_bin_setYaw pData newYaw =
     pData\<lparr>yaw := (if bFlipYaw pData = 1 then fneg (DEG2RAD newYaw) else DEG2RAD newYaw)\<rparr>"

definition ambi_bin_setPitch :: "'h ambi_bin_data \<Rightarrow> c_float \<Rightarrow> 'h ambi_bin_data" where
  "ambi_bin_setPitch pData newPitch =
     pData\<lparr>pitch := (if bFlipPitch pData = 1 then fneg (DEG2RAD newPitch) else DEG2RAD newPitch)\<rparr>"

definition ambi_bin_setRoll :: "'h ambi_bin_data \<Rightarrow> c_float \<Rightarrow> 'h ambi_bin_data" where
  "ambi_bin_setRoll pData newRoll =
     pData\<lparr>roll := (if bFlipRoll pData = 1 then fneg (DEG2RAD newRoll) else DEG2RAD newRoll)\<rparr>"

definition ambi_bin_getYaw :: "'h ambi_bin_data \<Rightarrow> c_float" where
  "ambi_bin_getYaw pData =
     (if bFlipYaw pData = 1 then fneg (RAD2DEG (yaw pData)) else RAD2DEG (yaw pData))"

definition ambi_bin_getPitch :: "'h ambi_bin_data \<Rightarrow> c_float" where
  "ambi_bin_getPitch pData =
     (if bFlipPitch pData = 1 then fneg (RAD2DEG (pitch pData)) else RAD2DEG (pitch pData))"

definition ambi_bin_getRoll :: "'h ambi_bin_data \<Rightarrow> c_float" where
  "ambi_bin_getRoll pData =
     (if bFlipRoll pData = 1 then fneg (RAD2DEG (roll pData)) else RAD2DEG (roll pData))"

definition ambi_bin_setFlipYaw :: "'h ambi_bin_data \<Rightarrow> int \<Rightarrow> 'h ambi_bin_data" where
  "ambi_bin_setFlipYaw pData newState =
     (if newState \<noteq> bFlipYaw pData then
        (let p1 = pData\<lparr>bFlipYaw := newState\<rparr>
         in ambi_bin_setYaw p1 (fneg (ambi_bin_getYaw p1)))
      else pData)"

definition ambi_bin_setFlipPitch :: "'h ambi_bin_data \<Rightarrow> int \<Rightarrow> 'h ambi_bin_data" where
  "ambi_bin_setFlipPitch pData newState =
     (if newState \<noteq> bFlipPitch pData then
        (let p1 = pData\<lparr>bFlipPitch := newState\<rparr>
         in ambi_bin_setPitch p1 (fneg (ambi_bin_getPitch p1)))
      else pData)"

definition ambi_bin_setFlipRoll :: "'h ambi_bin_data \<Rightarrow> int \<Rightarrow> 'h ambi_bin_data" where
  "ambi_bin_setFlipRoll pData newState =
     (if newState \<noteq> bFlipRoll pData then
        (let p1 = pData\<lparr>bFlipRoll := newState\<rparr>
         in ambi_bin_setRoll p1 (fneg (ambi_bin_getRoll p1)))
      else pData)"

definition ambi_bin_getSofaFilePath :: "'h ambi_bin_data \<Rightarrow> string" where
  "ambi_bin_getSofaFilePath pData =
     (case sofa_filepath (pars pData) of
        Some p \<Rightarrow> strings pData ! p
      | None \<Rightarrow> ''no_file'')"

section \<open>The binauraliser (binauraliser.c)\<close>

text \<open>
  The engine state of \<^verbatim>\<open>binauraliser.c\<close>. A field that shares its name with a field of
  the decoder's state carries the prefix \<open>b_\<close>; every other field has the name the
  source gives it. Arrays the file only hands on to its collaborators are pointers that
  may be \<^verbatim>\<open>NULL\<close>.
\<close>

record 'h binauraliser_data =
  b_hSTFT :: 'h
  b_STFTInputFrameTF :: "nat \<Rightarrow> nat \<Rightarrow> float_complex"
  b_STFTOutputFrameTF :: "nat \<Rightarrow> nat \<Rightarrow> float_complex"
  b_tempHopFrameTD :: "nat \<Rightarrow> nat \<Rightarrow> c_float"
  inputFrameTD :: "nat \<Rightarrow> nat \<Rightarrow> c_float"
  inputframeTF :: "nat \<Rightarrow> nat \<Rightarrow> nat \<Rightarrow> float_complex"
  outputframeTF :: "nat \<Rightarrow> nat \<Rightarrow> nat \<Rightarrow> float_complex"
  b_fs :: int
  b_freqVector :: "nat \<Rightarrow> c_float"
  b_useDefaultHRIRsFLAG :: int
  hrirs :: "(nat \<Rightarrow> c_float) option"
  hrir_dirs_deg :: "(nat \<Rightarrow> c_float) option"
  b_sofa_filepath :: "nat option"
  b_strings :: heap
  hrtf_vbap_gtableIdx :: "(nat \<Rightarrow> int) option"
  hrtf_vbap_gtableComp :: "(nat \<Rightarrow> c_float) option"
  itds_s :: "(nat \<Rightarrow> c_float) option"
  hrtf_fb :: "(nat \<Rightarrow> float_complex) option"
  hrtf_fb_mag :: "(nat \<Rightarrow> c_float) option"
  b_N_hrir_dirs :: int
  nTriangles :: int
  b_hrir_len :: int
  b_hrir_fs :: int
  reInitHRTFsAndGainTables :: int
  recalc_hrtf_interpFLAG :: "nat \<Rightarrow> int"
  b_reInitTFT :: int
  recalc_M_rotFLAG :: int
  src_dirs_deg :: "nat \<Rightarrow> nat \<Rightarrow> c_float"
  src_dirs_xyz :: "nat \<Rightarrow> nat \<Rightarrow> c_float"
  src_dirs_rot_xyz :: "nat \<Rightarrow> nat \<Rightarrow> c_float"
  src_dirs_rot_deg :: "nat \<Rightarrow> nat \<Rightarrow> c_float"
  hrtf_interp :: "nat \<Rightarrow> nat \<Rightarrow> nat \<Rightarrow> float_complex"
  new_nSources :: int
  nSources :: int
  input_nDims :: int
  interpMode :: int
  b_yaw :: c_float
  b_pitch :: c_float
  b_roll :: c_float
  b_bFlipYaw :: int
  b_bFlipPitch :: int
  b_bFlipRoll :: int
  useRollPitchYawFlag :: int
  enableRotation :: int

text \<open>
  Functions \<^verbatim>\<open>binauraliser.c\<close> calls whose code is not among the sources: the rebuilds,
  the HRTF interpolation (it fills the \<open>band \<times> ear\<close> array handed to it) and the preset
  loader of \<^verbatim>\<open>binauraliser_internal.c\<close>, the filterbank, the rotation matrix (here with
  its roll-pitch-yaw flag), and the functions of the C maths library other than
  \<^verbatim>\<open>sqrtf\<close>.
\<close>

record 'h binauraliser_ext =
  binauraliser_initTFT :: "'h binauraliser_data \<Rightarrow> 'h binauraliser_data"
  binauraliser_initHRTFsAndGainTables :: "'h binauraliser_data \<Rightarrow> 'h binauraliser_data"
  binauraliser_interpHRTFs ::
    "'h binauraliser_data \<Rightarrow> c_float \<Rightarrow> c_float \<Rightarrow> (nat \<Rightarrow> nat \<Rightarrow> float_complex)
       \<Rightarrow> (nat \<Rightarrow> nat \<Rightarrow> float_complex)"
  binauraliser_loadPreset ::
    "int \<Rightarrow> (nat \<Rightarrow> nat \<Rightarrow> c_float) \<Rightarrow> (nat \<Rightarrow> nat \<Rightarrow> c_float) \<times> int \<times> int"
  binauraliser_stft :: "'h afSTFT"
  b_yawPitchRoll2Rzyx :: "c_float \<Rightarrow> c_float \<Rightarrow> c_float \<Rightarrow> int \<Rightarrow> (nat \<Rightarrow> nat \<Rightarrow> c_float)"
  cosf :: "c_float \<Rightarrow> c_float"
  sinf :: "c_float \<Rightarrow> c_float"
  atan2f :: "c_float \<Rightarrow> c_float \<Rightarrow> c_float"
  powf :: "c_float \<Rightarrow> c_float \<Rightarrow> c_float"

subsection \<open>binauraliser\_checkReInit and binauraliser\_init\<close>

definition binauraliser_reinit_TFT :: "'h binauraliser_ext \<Rightarrow> 'h binauraliser_data \<Rightarrow> 'h binauraliser_data" where
  "binauraliser_reinit_TFT ext pData =
     (if b_reInitTFT pData = 1
      then (binauraliser_initTFT ext (pData\<lparr>b_reInitTFT := 2\<rparr>))\<lparr>b_reInitTFT := 0\<rparr>
      else pData)"

definition binauraliser_checkReInit :: "'h binauraliser_ext \<Rightarrow> 'h binauraliser_data \<Rightarrow> 'h binauraliser_data" where
  "binauraliser_checkReInit ext pData =
     (let p1 = binauraliser_reinit_TFT ext pData
      in (if reInitHRTFsAndGainTables p1 = 1
          then (binauraliser_initHRTFsAndGainTables ext
                  (p1\<lparr>reInitHRTFsAndGainTables := 2\<rparr>))\<lparr>reInitHRTFsAndGainTables := 0\<rparr>
          else p1))"

definition binauraliser_init ::
  "config \<Rightarrow> 'h binauraliser_ext \<Rightarrow> 'h binauraliser_data \<Rightarrow> int \<Rightarrow> 'h binauraliser_data" where
  "binauraliser_init cfg ext pData sampleRate =
     (let p1 = pData\<lparr>
                 b_fs := sampleRate,
                 b_freqVector := for_cells 0 (HYBRID_BANDS cfg) (\<lambda>band old.
                   if sampleRate = 44100 then Fin (afCenterFreq44100 cfg band)
                   else Fin (afCenterFreq48e3 cfg band)) (b_freqVector pData)\<rparr>
      in (binauraliser_checkReInit ext p1)\<lparr>recalc_M_rotFLAG := 1\<rparr>)"

subsection \<open>binauraliser\_process\<close>

text \<open>
  "Load time-domain data"; \<^verbatim>\<open>utility_svvcopy\<close> copies a vector of the given length.
\<close>

definition binauraliser_load_TD ::
  "config \<Rightarrow> (nat \<Rightarrow> nat \<Rightarrow> c_float) \<Rightarrow> int \<Rightarrow> int \<Rightarrow> (nat \<Rightarrow> nat \<Rightarrow> c_float) \<Rightarrow> (nat \<Rightarrow> nat \<Rightarrow> c_float)" where
  "binauraliser_load_TD cfg inputs nSrc nInputs td =
     (let n = nat (min nSrc nInputs) in
      for_cells n (MAX_NUM_INPUTS cfg) (\<lambda>i row. memset_n (FRAME_SIZE cfg) (Fin 0) row)
        (for_cells 0 n (\<lambda>i row. memcpy_n (FRAME_SIZE cfg) row (inputs i)) td))"

text \<open>"Apply time-frequency transform (TFT)".\<close>

definition binauraliser_forward_TFT ::
  "config \<Rightarrow> 'h afSTFT \<Rightarrow> nat \<Rightarrow> (nat \<Rightarrow> nat \<Rightarrow> c_float)
     \<Rightarrow> 'h \<times> (nat \<Rightarrow> nat \<Rightarrow> c_float) \<times> (nat \<Rightarrow> nat \<Rightarrow> float_complex) \<times> (nat \<Rightarrow> nat \<Rightarrow> nat \<Rightarrow> float_complex)
     \<Rightarrow> 'h \<times> (nat \<Rightarrow> nat \<Rightarrow> c_float) \<times> (nat \<Rightarrow> nat \<Rightarrow> float_complex) \<times> (nat \<Rightarrow> nat \<Rightarrow> nat \<Rightarrow> float_complex)" where
  "binauraliser_forward_TFT cfg fb nS td st =
     for_loop 0 (TIME_SLOTS cfg) (\<lambda>t (h, hop, X, inTF).
       (let hop1 = for_cells 0 nS (\<lambda>ch row.
                     memcpy_n (HOP_SIZE cfg) row (\<lambda>k. td ch (t * HOP_SIZE cfg + k))) hop;
            r = afSTFTforward fb h hop1 X;
            inTF1 = for_cells 0 (HYBRID_BANDS cfg) (\<lambda>band A.
                      for_cells 0 nS (\<lambda>ch row.
                        row(t := cmplxf (crealf (snd r ch band)) (cimagf (snd r ch band)))) A) inTF
        in (fst r, hop1, snd r, inTF1))) st"

text \<open>"Rotate source directions".\<close>

definition binauraliser_rotate ::
  "'h binauraliser_ext \<Rightarrow> nat \<Rightarrow> 'h binauraliser_data \<Rightarrow> 'h binauraliser_data" where
  "binauraliser_rotate ext nS pData =
     (let Rxyz = b_yawPitchRoll2Rzyx ext (b_yaw pData) (b_pitch pData) (b_roll pData)
                   (useRollPitchYawFlag pData);
          xyz = for_cells 0 nS (\<lambda>i row. row
                  (0 := fmul (cosf ext (DEG2RAD (src_dirs_deg pData i 1)))
                             (cosf ext (DEG2RAD (src_dirs_deg pData i 0))),
                   1 := fmul (cosf ext (DEG2RAD (src_dirs_deg pData i 1)))
                             (sinf ext (DEG2RAD (src_dirs_deg pData i 0))),
                   2 := sinf ext (DEG2RAD (src_dirs_deg pData i 1)))) (src_dirs_xyz pData);
          flags = for_cells 0 nS (\<lambda>i old. 1) (recalc_hrtf_interpFLAG pData);
          rot_xyz = cblas_sgemm nS 3 3 xyz Rxyz (src_dirs_rot_xyz pData);
          rot_deg = for_cells 0 nS (\<lambda>i row.
                  (let hypotxy = fround (sqrtf (fadd (powf ext (rot_xyz i 0) (Fin 2))
                                                     (powf ext (rot_xyz i 1) (Fin 2))))
                   in row(0 := RAD2DEG (atan2f ext (rot_xyz i 1) (rot_xyz i 0)),
                          1 := RAD2DEG (atan2f ext (rot_xyz i 2) hypotxy)))) (src_dirs_rot_deg pData)
      in pData\<lparr>src_dirs_xyz := xyz,
               recalc_hrtf_interpFLAG := flags,
               src_dirs_rot_xyz := rot_xyz,
               src_dirs_rot_deg := rot_deg,
               recalc_M_rotFLAG := 0\<rparr>)"

text \<open>"Interpolate hrtfs and apply to each source": one pass of the loop over the sources.\<close>

definition binauraliser_apply_source ::
  "config \<Rightarrow> 'h binauraliser_ext \<Rightarrow> int \<Rightarrow> nat \<Rightarrow> 'h binauraliser_data \<Rightarrow> 'h binauraliser_data" where
  "binauraliser_apply_source cfg ext enableRot ch pData =
     (let p1 = (if recalc_hrtf_interpFLAG pData ch \<noteq> 0 then
                  pData\<lparr>hrtf_interp := (hrtf_interp pData)(ch :=
                           (if enableRot \<noteq> 0
                            then binauraliser_interpHRTFs ext pData
                                   (src_dirs_rot_deg pData ch 0) (src_dirs_rot_deg pData ch 1)
                                   (hrtf_interp pData ch)
                            else binauraliser_interpHRTFs ext pData
                                   (src_dirs_deg pData ch 0) (src_dirs_deg pData ch 1)
                                   (hrtf_interp pData ch))),
                        recalc_hrtf_interpFLAG := (recalc_hrtf_interpFLAG pData)(ch := 0)\<rparr>
                else pData)
      in p1\<lparr>outputframeTF :=
               for_cells 0 (HYBRID_BANDS cfg) (\<lambda>band A.
                 for_cells 0 (NUM_EARS cfg) (\<lambda>ear row.
                   for_cells 0 (TIME_SLOTS cfg) (\<lambda>t x.
                     ccaddf x (ccmulf (inputframeTF p1 band ch t) (hrtf_interp p1 ch band ear)))
                   row) A) (outputframeTF p1)\<rparr>)"

text \<open>
  The sum over the first \<open>n\<close> sources of the HRTF-weighted subbands of one cell, added
  in the order of the loop over the sources: \<open>x ch\<close> is the source's subband sample and
  \<open>h ch\<close> its interpolated HRTF.
\<close>

definition source_sum :: "nat \<Rightarrow> (nat \<Rightarrow> float_complex) \<Rightarrow> (nat \<Rightarrow> float_complex) \<Rightarrow> float_complex" where
  "source_sum n x h = foldl (\<lambda>acc ch. ccaddf acc (ccmulf (x ch) (h ch))) czero [0..<n]"

text \<open>
  "Scale by number of sources": every entry is multiplied by the float
  \<^verbatim>\<open>1.0f/sqrtf((float)nSources)\<close>, a rounded square root and a rounded quotient.
\<close>

definition binauraliser_scale ::
  "config \<Rightarrow> int \<Rightarrow> (nat \<Rightarrow> nat \<Rightarrow> nat \<Rightarrow> float_complex) \<Rightarrow> (nat \<Rightarrow> nat \<Rightarrow> nat \<Rightarrow> float_complex)" where
  "binauraliser_scale cfg nSrc out =
     for_cells 0 (HYBRID_BANDS cfg) (\<lambda>band A.
       for_cells 0 (NUM_EARS cfg) (\<lambda>ear row.
         for_cells 0 (TIME_SLOTS cfg) (\<lambda>t x.
           crmulf x (fround (fdiv (Fin 1) (fround (sqrtf (float_of_int nSrc)))))) row) A) out"

text \<open>"Main processing": the branch taken when \<^verbatim>\<open>isPlaying\<close> is set, and the other one.\<close>

definition binauraliser_main ::
  "config \<Rightarrow> 'h binauraliser_ext \<Rightarrow> int \<Rightarrow> int \<Rightarrow> int \<Rightarrow> 'h binauraliser_data \<Rightarrow> 'h binauraliser_data" where
  "binauraliser_main cfg ext nSrc enableRot isPlaying pData =
     (if isPlaying \<noteq> 0 then
        (let p1 = (if enableRot \<noteq> 0 \<and> recalc_M_rotFLAG pData \<noteq> 0
                   then binauraliser_rotate ext (nat nSrc) pData else pData);
             p2 = p1\<lparr>outputframeTF := (\<lambda>band ear t. czero)\<rparr>;
             p3 = for_loop 0 (nat nSrc) (binauraliser_apply_source cfg ext enableRot) p2
         in p3\<lparr>outputframeTF := binauraliser_scale cfg nSrc (outputframeTF p3)\<rparr>)
      else pData\<lparr>outputframeTF := (\<lambda>band ear t. czero)\<rparr>)"

text \<open>"Inverse-TFT".\<close>

definition binauraliser_inverse_TFT ::
  "config \<Rightarrow> 'h afSTFT \<Rightarrow> int \<Rightarrow> (nat \<Rightarrow> nat \<Rightarrow> nat \<Rightarrow> float_complex)
     \<Rightarrow> 'h \<times> (nat \<Rightarrow> nat \<Rightarrow> c_float) \<times> (nat \<Rightarrow> nat \<Rightarrow> float_complex) \<times> (nat \<Rightarrow> nat \<Rightarrow> c_float)
     \<Rightarrow> 'h \<times> (nat \<Rightarrow> nat \<Rightarrow> c_float) \<times> (nat \<Rightarrow> nat \<Rightarrow> float_complex) \<times> (nat \<Rightarrow> nat \<Rightarrow> c_float)" where
  "binauraliser_inverse_TFT cfg fb nOutputs out st =
     for_loop 0 (TIME_SLOTS cfg) (\<lambda>t (h, hop, Y, outputs).
       (let Y1 = for_loop 0 (HYBRID_BANDS cfg) (\<lambda>band Y2.
                   for_cells 0 (NUM_EARS cfg) (\<lambda>ch row.
                     row(band := cmplxf (crealf (out band ch t)) (cimagf (out band ch t)))) Y2) Y;
            r = afSTFTinverse fb h Y1 hop;
            n = nat (min (int (NUM_EARS cfg)) nOutputs);
            out1 = for_cells 0 n (\<lambda>ch row. write_hop cfg t (snd r ch) row) outputs;
            out2 = for_cells n (nat nOutputs) (\<lambda>ch row. write_hop cfg t (\<lambda>sample. Fin 0) row) out1
        in (fst r, snd r, Y1, out2))) st"

text \<open>
  The block "reinitialise if needed" at the head of \<^verbatim>\<open>binauraliser_process\<close>: on
  \<^verbatim>\<open>__APPLE__\<close> builds \<^verbatim>\<open>binauraliser_checkReInit\<close>, on all others the filterbank
  rebuild alone.
\<close>

definition binauraliser_process_reinit ::
  "config \<Rightarrow> 'h binauraliser_ext \<Rightarrow> 'h binauraliser_data \<Rightarrow> 'h binauraliser_data" where
  "binauraliser_process_reinit cfg ext hBin =
     (if APPLE cfg then binauraliser_checkReInit ext hBin else binauraliser_reinit_TFT ext hBin)"

text \<open>
  The branch "apply binaural panner", in three steps: the input is loaded and
  analysed, the main processing fills \<^verbatim>\<open>outputframeTF\<close>, and the synthesis writes the
  output. The file does not declare \<^verbatim>\<open>applyFadeIn\<close>, so it builds only without
  \<^verbatim>\<open>ENABLE_FADE_IN_OUT\<close>, and the fade-in is no part of the function.
\<close>

definition binauraliser_analyse ::
  "config \<Rightarrow> 'h binauraliser_ext \<Rightarrow> 'h binauraliser_data \<Rightarrow> (nat \<Rightarrow> nat \<Rightarrow> c_float) \<Rightarrow> int
     \<Rightarrow> 'h binauraliser_data" where
  "binauraliser_analyse cfg ext pData inputs nInputs =
     (let nSrc = nSources pData;
          td = binauraliser_load_TD cfg inputs nSrc nInputs (inputFrameTD pData);
          fwd = binauraliser_forward_TFT cfg (binauraliser_stft ext) (nat nSrc) td
                  (b_hSTFT pData, b_tempHopFrameTD pData, b_STFTInputFrameTF pData,
                   inputframeTF pData)
      in pData\<lparr>inputFrameTD := td,
               b_hSTFT := fst fwd,
               b_tempHopFrameTD := fst (snd fwd),
               b_STFTInputFrameTF := fst (snd (snd fwd)),
               inputframeTF := snd (snd (snd fwd))\<rparr>)"

definition binauraliser_process_block ::
  "config \<Rightarrow> 'h binauraliser_ext \<Rightarrow> 'h binauraliser_data \<Rightarrow> (nat \<Rightarrow> nat \<Rightarrow> c_float)
     \<Rightarrow> (nat \<Rightarrow> nat \<Rightarrow> c_float) \<Rightarrow> int \<Rightarrow> int \<Rightarrow> int
     \<Rightarrow> 'h binauraliser_data \<times> (nat \<Rightarrow> nat \<Rightarrow> c_float)" where
  "binauraliser_process_block cfg ext pData inputs outputs nInputs nOutputs isPlaying =
     (let nSrc = nSources pData;
          enableRot = enableRotation pData;
          p1 = binauraliser_analyse cfg ext pData inputs nInputs;
          p2 = binauraliser_main cfg ext nSrc enableRot isPlaying p1;
          inv = binauraliser_inverse_TFT cfg (binauraliser_stft ext) nOutputs (outputframeTF p2)
                  (b_hSTFT p2, b_tempHopFrameTD p2, b_STFTOutputFrameTF p2, outputs)
      in (p2\<lparr>b_hSTFT := fst inv,
              b_tempHopFrameTD := fst (snd inv),
              b_STFTOutputFrameTF := fst (snd (snd inv))\<rparr>,
          snd (snd (snd inv))))"

definition binauraliser_process ::
  "config \<Rightarrow> 'h binauraliser_ext \<Rightarrow> 'h binauraliser_data \<Rightarrow> (nat \<Rightarrow> nat \<Rightarrow> c_float)
     \<Rightarrow> (nat \<Rightarrow> nat \<Rightarrow> c_float) \<Rightarrow> int \<Rightarrow> int \<Rightarrow> int \<Rightarrow> int
     \<Rightarrow> 'h binauraliser_data \<times> (nat \<Rightarrow> nat \<Rightarrow> c_float)" where
  "binauraliser_process cfg ext hBin inputs outputs nInputs nOutputs nSamples isPlaying =
     (let pData = binauraliser_process_reinit cfg ext hBin
      in if nSamples = int (FRAME_SIZE cfg) \<and> hrtf_fb pData \<noteq> None
            \<and> b_reInitTFT pData = 0 \<and> reInitHRTFsAndGainTables pData = 0
         then binauraliser_process_block cfg ext pData inputs outputs nInputs nOutputs isPlaying
         else (pData, silence cfg nOutputs outputs))"

subsection \<open>Set and get functions of binauraliser.c\<close>

definition binauraliser_refreshSettings :: "'h binauraliser_data \<Rightarrow> 'h binauraliser_data" where
  "binauraliser_refreshSettings pData = pData\<lparr>reInitHRTFsAndGainTables := 1, b_reInitTFT := 1\<rparr>"

definition binauraliser_setSourceAzi_deg ::
  "'h binauraliser_data \<Rightarrow> nat \<Rightarrow> c_float \<Rightarrow> 'h binauraliser_data" where
  "binauraliser_setSourceAzi_deg pData index newAzi_deg =
     (let a1 = (if fgt newAzi_deg (Fin 180) then fadd (Fin (- 360)) newAzi_deg else newAzi_deg);
          a2 = MAX_f a1 (Fin (- 180));
          a3 = MIN_f a2 (Fin 180)
      in pData\<lparr>recalc_hrtf_interpFLAG := (recalc_hrtf_interpFLAG pData)(index := 1),
               src_dirs_deg := (src_dirs_deg pData)(index := (src_dirs_deg pData index)(0 := a3)),
               recalc_M_rotFLAG := 1\<rparr>)"

definition binauraliser_setSourceElev_deg ::
  "'h binauraliser_data \<Rightarrow> nat \<Rightarrow> c_float \<Rightarrow> 'h binauraliser_data" where
  "binauraliser_setSourceElev_deg pData index newElev_deg =
     (let e1 = MAX_f newElev_deg (Fin (- 90));
          e2 = MIN_f e1 (Fin 90)
      in pData\<lparr>recalc_hrtf_interpFLAG := (recalc_hrtf_interpFLAG pData)(index := 1),
               src_dirs_deg := (src_dirs_deg pData)(index := (src_dirs_deg pData index)(1 := e2)),
               recalc_M_rotFLAG := 1\<rparr>)"

definition binauraliser_getSourceAzi_deg :: "'h binauraliser_data \<Rightarrow> nat \<Rightarrow> c_float" where
  "binauraliser_getSourceAzi_deg pData index = src_dirs_deg pData index 0"

definition binauraliser_getSourceElev_deg :: "'h binauraliser_data \<Rightarrow> nat \<Rightarrow> c_float" where
  "binauraliser_getSourceElev_deg pData index = src_dirs_deg pData index 1"

definition binauraliser_setNumSources ::
  "config \<Rightarrow> 'h binauraliser_data \<Rightarrow> int \<Rightarrow> 'h binauraliser_data" where
  "binauraliser_setNumSources cfg pData new_nSources1 =
     (let p1 = pData\<lparr>new_nSources :=
                 (if new_nSources1 > int (MAX_NUM_INPUTS cfg) then int (MAX_NUM_INPUTS cfg)
                  else new_nSources1)\<rparr>;
          p2 = (if nSources p1 \<noteq> new_nSources p1 then p1\<lparr>b_reInitTFT := 1\<rparr> else p1)
      in p2\<lparr>recalc_M_rotFLAG := 1\<rparr>)"

definition binauraliser_setUseDefaultHRIRsflag :: "'h binauraliser_data \<Rightarrow> int \<Rightarrow> 'h binauraliser_data" where
  "binauraliser_setUseDefaultHRIRsflag pData newState =
     (if b_useDefaultHRIRsFLAG pData = 0 \<and> newState \<noteq> 0
      then pData\<lparr>b_useDefaultHRIRsFLAG := newState, reInitHRTFsAndGainTables := 1\<rparr>
      else pData)"

definition binauraliser_setSofaFilePath :: "'h binauraliser_data \<Rightarrow> string \<Rightarrow> 'h binauraliser_data" where
  "binauraliser_setSofaFilePath pData path =
     (let m = malloc_strcpy (b_strings pData) path in
      pData\<lparr>b_strings := fst m,
            b_sofa_filepath := Some (snd m),
            b_useDefaultHRIRsFLAG := 0,
            reInitHRTFsAndGainTables := 1\<rparr>)"

definition binauraliser_getSofaFilePath :: "'h binauraliser_data \<Rightarrow> string" where
  "binauraliser_getSofaFilePath pData =
     (case b_sofa_filepath pData of
        Some p \<Rightarrow> b_strings pData ! p
      | None \<Rightarrow> ''no_file'')"

definition binauraliser_setInputConfigPreset ::
  "config \<Rightarrow> 'h binauraliser_ext \<Rightarrow> 'h binauraliser_data \<Rightarrow> int \<Rightarrow> 'h binauraliser_data" where
  "binauraliser_setInputConfigPreset cfg ext pData newPresetID =
     (let r = binauraliser_loadPreset ext newPresetID (src_dirs_deg pData);
          p1 = pData\<lparr>src_dirs_deg := fst r, new_nSources := fst (snd r), input_nDims := snd (snd r)\<rparr>;
          p2 = (if nSources p1 \<noteq> new_nSources p1 then p1\<lparr>b_reInitTFT := 1\<rparr> else p1)
      in p2\<lparr>recalc_hrtf_interpFLAG :=
               for_cells 0 (MAX_NUM_INPUTS cfg) (\<lambda>ch old. 1) (recalc_hrtf_interpFLAG p2)\<rparr>)"

definition binauraliser_setEnableRotation ::
  "config \<Rightarrow> 'h binauraliser_data \<Rightarrow> int \<Rightarrow> 'h binauraliser_data" where
  "binauraliser_setEnableRotation cfg pData newState =
     (let p1 = pData\<lparr>enableRotation := newState\<rparr>
      in if enableRotation p1 = 0
         then p1\<lparr>recalc_hrtf_interpFLAG :=
                   for_cells 0 (MAX_NUM_INPUTS cfg) (\<lambda>ch old. 1) (recalc_hrtf_interpFLAG p1)\<rparr>
         else p1)"

definition binauraliser_setYaw :: "'h binauraliser_data \<Rightarrow> c_float \<Rightarrow> 'h binauraliser_data" where
  "binauraliser_setYaw pData newYaw =
     pData\<lparr>b_yaw := (if b_bFlipYaw pData = 1 then fneg (DEG2RAD newYaw) else DEG2RAD newYaw),
           recalc_M_rotFLAG := 1\<rparr>"

definition binauraliser_setPitch :: "'h binauraliser_data \<Rightarrow> c_float \<Rightarrow> 'h binauraliser_data" where
  "binauraliser_setPitch pData newPitch =
     pData\<lparr>b_pitch := (if b_bFlipPitch pData = 1 then fneg (DEG2RAD newPitch) else DEG2RAD newPitch),
           recalc_M_rotFLAG := 1\<rparr>"

definition binauraliser_setRoll :: "'h binauraliser_data \<Rightarrow> c_float \<Rightarrow> 'h binauraliser_data" where
  "binauraliser_setRoll pData newRoll =
     pData\<lparr>b_roll := (if b_bFlipRoll pData = 1 then fneg (DEG2RAD newRoll) else DEG2RAD newRoll),
           recalc_M_rotFLAG := 1\<rparr>"

definition binauraliser_getYaw :: "'h binauraliser_data \<Rightarrow> c_float" where
  "binauraliser_getYaw pData =
     (if b_bFlipYaw pData = 1 then fneg (RAD2DEG (b_yaw pData)) else RAD2DEG (b_yaw pData))"

definition binauraliser_getPitch :: "'h binauraliser_data \<Rightarrow> c_float" where
  "binauraliser_getPitch pData =
     (if b_bFlipPitch pData = 1 then fneg (RAD2DEG (b_pitch pData)) else RAD2DEG (b_pitch pData))"

definition binauraliser_getRoll :: "'h binauraliser_data \<Rightarrow> c_float" where
  "binauraliser_getRoll pData =
     (if b_bFlipRoll pData = 1 then fneg (RAD2DEG (b_roll pData)) else RAD2DEG (b_roll pData))"

definition binauraliser_setFlipYaw :: "'h binauraliser_data \<Rightarrow> int \<Rightarrow> 'h binauraliser_data" where
  "binauraliser_setFlipYaw pData newState =
     (if newState \<noteq> b_bFlipYaw pData then
        (let p1 = pData\<lparr>b_bFlipYaw := newState\<rparr>
         in binauraliser_setYaw p1 (fneg (binauraliser_getYaw p1)))
      else pData)"

definition binauraliser_setFlipPitch :: "'h binauraliser_data \<Rightarrow> int \<Rightarrow> 'h binauraliser_data" where
  "binauraliser_setFlipPitch pData newState =
     (if newState \<noteq> b_bFlipPitch pData then
        (let p1 = pData\<lparr>b_bFlipPitch := newState\<rparr>
         in binauraliser_setPitch p1 (fneg (binauraliser_getPitch p1)))
      else pData)"

definition binauraliser_setFlipRoll :: "'h binauraliser_data \<Rightarrow> int \<Rightarrow> 'h binauraliser_data" where
  "binauraliser_setFlipRoll pData newState =
     (if newState \<noteq> b_bFlipRoll pData then
        (let p1 = pData\<lparr>b_bFlipRoll := newState\<rparr>
         in binauraliser_setRoll p1 (fneg (binauraliser_getRoll p1)))
      else pData)"

definition binauraliser_setRPYflag :: "'h binauraliser_data \<Rightarrow> int \<Rightarrow> 'h binauraliser_data" where
  "binauraliser_setRPYflag pData newState = pData\<lparr>useRollPitchYawFlag := newState\<rparr>"

definition binauraliser_setInterpMode :: "'h binauraliser_data \<Rightarrow> int \<Rightarrow> 'h binauraliser_data" where
  "binauraliser_setInterpMode pData newMode = pData\<lparr>interpMode := newMode\<rparr>"

section \<open>Example configurations and states\<close>

text \<open>
  A small build (one band, two time slots of two samples, two ears, up to four
  channels), a filterbank with one hop of latency, and engine states to run the
  functions on. The filterbank's handle is the hop its synthesis side still has to
  emit; its analysis side puts the first sample of a channel's hop in every band.
\<close>

definition example_cfg :: config where
  "example_cfg = \<lparr>FRAME_SIZE = 4, HOP_SIZE = 2, TIME_SLOTS = 2, HYBRID_BANDS = 1, NUM_EARS = 2,
     MAX_NUM_SH_SIGNALS = 4, MAX_SH_ORDER = 1, MAX_NUM_INPUTS = 4, NORM_N3D = 1, NORM_SN3D = 2,
     afCenterFreq44100 = (\<lambda>band. 0), afCenterFreq48e3 = (\<lambda>band. 0),
     ENABLE_FADE_IN_OUT = False, APPLE = False\<rparr>"

definition example_stft :: "(nat \<Rightarrow> nat \<Rightarrow> c_float) afSTFT" where
  "example_stft = \<lparr>
     afSTFTforward = (\<lambda>h hop X. (h, \<lambda>ch band. cmplxf (hop ch 0) (Fin 0))),
     afSTFTinverse = (\<lambda>h Y hop. (\<lambda>ch k. crealf (Y ch 0), h))\<rparr>"

definition example_ambi_ext :: "(nat \<Rightarrow> nat \<Rightarrow> c_float) ambi_bin_ext" where
  "example_ambi_ext = \<lparr>
     ambi_bin_initTFT = (\<lambda>pData. pData\<lparr>nSH := new_nSH pData\<rparr>),
     ambi_bin_initCodec = (\<lambda>pData. pData\<lparr>pars := (pars pData)\<lparr>M_dec := (\<lambda>band ear ch. cmplxf (Fin 1) (Fin 0))\<rparr>\<rparr>),
     ambi_bin_stft = example_stft,
     yawPitchRoll2Rzyx = (\<lambda>y p r i j. if i = j then Fin 1 else Fin 0),
     getSHrotMtxReal = (\<lambda>R ord k. if k mod (nat ((ord + 1) * (ord + 1)) + 1) = 0 then Fin 1 else Fin 0)\<rparr>"

definition example_ambi :: "(nat \<Rightarrow> nat \<Rightarrow> c_float) ambi_bin_data" where
  "example_ambi = \<lparr>
     hSTFT = (\<lambda>ch k. Fin 0),
     STFTInputFrameTF = (\<lambda>t ch band. czero),
     STFTOutputFrameTF = (\<lambda>t ch band. czero),
     tempHopFrameTD = (\<lambda>ch k. Fin 0),
     SHFrameTD = (\<lambda>ch k. Fin 0),
     SHframeTF = (\<lambda>band ch t. czero),
     prev_SHframeTF = (\<lambda>band ch t. czero),
     binframeTF = (\<lambda>band ear t. czero),
     current_M = (\<lambda>band ear ch. czero),
     prev_M = (\<lambda>band ear ch. czero),
     interpolator = (\<lambda>t. Fin 0),
     pars = \<lparr>sofa_filepath = None, M_dec = (\<lambda>band ear ch. cmplxf (Fin 1) (Fin 0)),
              N_hrir_dirs = 0, hrir_len = 0, hrir_fs = 0\<rparr>,
     strings = [],
     fs = 48000,
     freqVector = (\<lambda>band. Fin 0),
     reInitCodec = 0,
     reInitTFT = 0,
     EQ = (\<lambda>band. Fin 1),
     useDefaultHRIRsFLAG = 1,
     chOrdering = 1,
     norm = 1,
     rE_WEIGHT = 0,
     enableEQ = 0,
     yaw = Fin 0,
     pitch = Fin 0,
     roll = Fin 0,
     bFlipYaw = 0,
     bFlipPitch = 0,
     bFlipRoll = 0,
     orderSelected = INPUT_OMNI,
     order = 0,
     nSH = 1,
     new_nSH = 1\<rparr>"

definition example_bin_ext :: "(nat \<Rightarrow> nat \<Rightarrow> c_float) binauraliser_ext" where
  "example_bin_ext = \<lparr>
     binauraliser_initTFT = (\<lambda>pData. pData\<lparr>nSources := new_nSources pData\<rparr>),
     binauraliser_initHRTFsAndGainTables =
       (\<lambda>pData. pData\<lparr>hrtf_fb := Some (\<lambda>k. cmplxf (Fin 1) (Fin 0))\<rparr>),
     binauraliser_interpHRTFs = (\<lambda>pData azi elev old band ear. cmplxf (Fin 1) (Fin 0)),
     binauraliser_loadPreset = (\<lambda>presetID dirs. (dirs, 1, 2)),
     binauraliser_stft = example_stft,
     b_yawPitchRoll2Rzyx = (\<lambda>y p r flag i j. if i = j then Fin 1 else Fin 0),
     cosf = (\<lambda>x. case x of Fin a \<Rightarrow> Fin (cos a) | _ \<Rightarrow> NaN),
     sinf = (\<lambda>x. case x of Fin a \<Rightarrow> Fin (sin a) | _ \<Rightarrow> NaN),
     atan2f = (\<lambda>y x. case (y, x) of (Fin a, Fin b) \<Rightarrow> (if 0 < b then Fin (arctan (a / b)) else NaN)
                                   | _ \<Rightarrow> NaN),
     powf = (\<lambda>x y. if y = Fin 2 then fmul x x else NaN)\<rparr>"

definition example_bin :: "(nat \<Rightarrow> nat \<Rightarrow> c_float) binauraliser_data" where
  "example_bin = \<lparr>
     b_hSTFT = (\<lambda>ch k. Fin 0),
     b_STFTInputFrameTF = (\<lambda>ch band. czero),
     b_STFTOutputFrameTF = (\<lambda>ch band. czero),
     b_tempHopFrameTD = (\<lambda>ch k. Fin 0),
     inputFrameTD = (\<lambda>ch k. Fin 0),
     inputframeTF = (\<lambda>band ch t. czero),
     outputframeTF = (\<lambda>band ear t. czero),
     b_fs = 48000,
     b_freqVector = (\<lambda>band. Fin 0),
     b_useDefaultHRIRsFLAG = 1,
     hrirs = None,
     hrir_dirs_deg = None,
     b_sofa_filepath = None,
     b_strings = [],
     hrtf_vbap_gtableIdx = None,
     hrtf_vbap_gtableComp = None,
     itds_s = None,
     hrtf_fb = Some (\<lambda>k. cmplxf (Fin 1) (Fin 0)),
     hrtf_fb_mag = None,
     b_N_hrir_dirs = 0,
     nTriangles = 0,
     b_hrir_len = 0,
     b_hrir_fs = 0,
     reInitHRTFsAndGainTables = 0,
     recalc_hrtf_interpFLAG = (\<lambda>ch. 1),
     b_reInitTFT = 0,
     recalc_M_rotFLAG = 1,
     src_dirs_deg = (\<lambda>i k. Fin 0),
     src_dirs_xyz = (\<lambda>i k. Fin 0),
     src_dirs_rot_xyz = (\<lambda>i k. Fin 0),
     src_dirs_rot_deg = (\<lambda>i k. Fin 0),
     hrtf_interp = (\<lambda>ch band ear. czero),
     new_nSources = 1,
     nSources = 1,
     input_nDims = 2,
     interpMode = 0,
     b_yaw = Fin 0,
     b_pitch = Fin 0,
     b_roll = Fin 0,
     b_bFlipYaw = 0,
     b_bFlipPitch = 0,
     b_bFlipRoll = 0,
     useRollPitchYawFlag = 0,
     enableRotation = 0\<rparr>"

section \<open>Rounding lemmas\<close>

lemma float_round_0: "float_round 0 = 0"
  by (simp add: float_round_def)

lemma float_round_error: "\<bar>float_round x - x\<bar> \<le> \<bar>x\<bar> / 2 ^ 24"
proof (cases "x = 0")
  case True
  then show ?thesis by (simp add: float_round_def)
next
  case False
  define e where "e = \<lfloor>log 2 \<bar>x\<bar>\<rfloor>"
  define u :: real where "u = 2 powr (of_int e - 23)"
  have u: "0 < u" by (simp add: u_def)
  have fr: "float_round x = of_int (round (x / u)) * u"
    using False by (simp add: float_round_def e_def u_def Let_def)
  have "2 powr of_int e \<le> 2 powr log 2 \<bar>x\<bar>"
    by (simp add: e_def)
  also have "\<dots> = \<bar>x\<bar>" using False by simp
  finally have low: "2 powr of_int e \<le> \<bar>x\<bar>" .
  have ue: "u * 2 ^ 23 = 2 powr of_int e"
    by (simp add: u_def powr_diff)
  have "float_round x - x = (of_int (round (x / u)) - x / u) * u"
    using u by (simp add: fr left_diff_distrib)
  then have "\<bar>float_round x - x\<bar> = \<bar>of_int (round (x / u)) - x / u\<bar> * u"
    using u by (simp add: abs_mult)
  also have "\<dots> \<le> (1 / 2) * u"
    using u of_int_round_abs_le [of "x / u"] by (intro mult_right_mono) simp_all
  also have "\<dots> = (u * 2 ^ 23) / 2 ^ 24" by simp
  also have "\<dots> \<le> \<bar>x\<bar> / 2 ^ 24"
    unfolding ue using low by (simp add: divide_right_mono)
  finally show ?thesis .
qed

lemma float_round_exact:
  assumes "x / 2 powr (of_int \<lfloor>log 2 \<bar>x\<bar>\<rfloor> - 23) = of_int m"
  shows "float_round x = x"
proof (cases "x = 0")
  case True
  then show ?thesis by (simp add: float_round_def)
next
  case False
  define u :: real where "u = 2 powr (of_int \<lfloor>log 2 \<bar>x\<bar>\<rfloor> - 23)"
  have u: "0 < u" by (simp add: u_def)
  have "float_round x = of_int (round (x / u)) * u"
    using False by (simp add: float_round_def u_def Let_def)
  also have "\<dots> = of_int m * u" using assms by (simp add: u_def)
  also have "\<dots> = x / u * u" using assms by (simp add: u_def)
  also have "\<dots> = x" using u by simp
  finally show ?thesis .
qed

lemma float_round_dyadic:
  assumes "0 < n" "n < 2 ^ 24"
  shows "float_round (real n / 2 ^ k) = real n / 2 ^ k"
proof -
  define x :: real where "x = real n / 2 ^ k"
  define e where "e = \<lfloor>log 2 \<bar>x\<bar>\<rfloor>"
  have xp: "0 < x" using assms by (simp add: x_def)
  have "2 powr of_int e \<le> x \<and> x < 2 powr of_int (e + 1)"
    using floor_log_eq_powr_iff [of x 2 e] xp by (simp add: e_def)
  then have "2 powr of_int e \<le> x" by simp
  also have "x < 2 ^ 24 / 2 ^ k"
    using assms(2) unfolding x_def
    by (intro divide_strict_right_mono) (simp_all add: of_nat_less_numeral_power_cancel_iff)
  also have "\<dots> = 2 powr (24 - real k)"
    by (simp add: powr_diff powr_realpow)
  finally have "of_int e < 24 - real k" by simp
  then have le: "e + int k \<le> 23" by linarith
  define j where "j = nat (23 - e - int k)"
  have j: "real j = 23 - of_int e - real k" using le by (simp add: j_def)
  have "x / 2 powr (of_int e - 23) = real n * (2 powr (- real k) * 2 powr (23 - of_int e))"
    by (simp add: x_def powr_minus powr_realpow powr_diff field_simps)
  also have "2 powr (- real k) * 2 powr (23 - of_int e) = 2 powr real j"
    unfolding j by (simp add: powr_add [symmetric])
  also have "\<dots> = 2 ^ j" by (simp add: powr_realpow)
  finally have "x / 2 powr (of_int \<lfloor>log 2 \<bar>x\<bar>\<rfloor> - 23) = of_int (int n * 2 ^ j)"
    by (simp add: e_def)
  then show ?thesis unfolding x_def [symmetric] by (rule float_round_exact)
qed

lemma float_round_third: "float_round (1 / 3) = 11184811 / 33554432"
proof -
  have e: "\<lfloor>log 2 (1 / 3 :: real)\<rfloor> = - 2"
    using floor_log_eq_powr_iff [of "1 / 3 :: real" 2 "- 2"]
    by (simp add: powr_minus powr_numeral)
  have u: "(2::real) powr (- 25) = 1 / 33554432"
    by (simp add: powr_minus powr_numeral)
  show ?thesis
    by (simp add: float_round_def e Let_def u round_def)
qed


lemma float_round_bounds:
  assumes "0 < x"
  shows "x * (1 - 1 / 2 ^ 24) \<le> float_round x" "float_round x \<le> x * (1 + 1 / 2 ^ 24)"
proof -
  have "float_round x - x \<le> \<bar>x\<bar> / 2 ^ 24 \<and> - (float_round x - x) \<le> \<bar>x\<bar> / 2 ^ 24"
    using float_round_error [of x] by (simp only: abs_le_iff)
  then have b: "float_round x - x \<le> x / 16777216" "x - float_round x \<le> x / 16777216"
    using assms by simp_all
  show "x * (1 - 1 / 2 ^ 24) \<le> float_round x" using b(2) by (simp add: algebra_simps)
  show "float_round x \<le> x * (1 + 1 / 2 ^ 24)" using b(1) by (simp add: algebra_simps)
qed

lemma float_round_pos: "0 < x \<Longrightarrow> 0 < float_round x"
proof -
  assume x: "0 < x"
  have "0 < x * (1 - 1 / 2 ^ 24)" using x by simp
  also have "\<dots> \<le> float_round x" using x by (rule float_round_bounds)
  finally show ?thesis .
qed

lemma float_round_ramp_less:
  assumes "0 < i" "i < j" "j \<le> T" "T \<le> 2 ^ 23"
  shows "float_round (real i / real T) < float_round (real j / real T)"
proof -
  have T: "0 < real T" using assms by simp
  have i: "0 < real i / real T" using assms by simp
  have j: "0 < real j / real T" using assms by simp
  have "real i < 2 ^ 23"
    using assms by (metis less_le_trans of_nat_less_numeral_power_cancel_iff)
  moreover have "real i + 1 \<le> real j" using assms by linarith
  ultimately have "real i * (1 + 1 / 2 ^ 24) < real j * (1 - 1 / 2 ^ 24)"
    by (simp add: algebra_simps)
  then have "real i * (1 + 1 / 2 ^ 24) / real T < real j * (1 - 1 / 2 ^ 24) / real T"
    using T by (rule divide_strict_right_mono)
  then have m: "real i / real T * (1 + 1 / 2 ^ 24) < real j / real T * (1 - 1 / 2 ^ 24)"
    by simp
  have "float_round (real i / real T) \<le> real i / real T * (1 + 1 / 2 ^ 24)"
    using i by (rule float_round_bounds)
  also note m
  also have "real j / real T * (1 - 1 / 2 ^ 24) \<le> float_round (real j / real T)"
    using j by (rule float_round_bounds)
  finally show ?thesis .
qed




lemma float_round_one: "float_round 1 = 1"
  using float_round_dyadic [of 1 0] by simp

lemma float_round_half: "float_round (1 / 2) = 1 / 2"
  using float_round_dyadic [of 1 1] by simp

section \<open>Loop lemmas\<close>

lemma for_loop_empty: "hi \<le> lo \<Longrightarrow> for_loop lo hi body s = s"
  by (simp add: for_loop_def)

lemma for_loop_Suc:
  "lo \<le> hi \<Longrightarrow> for_loop lo (Suc hi) body s = body hi (for_loop lo hi body s)"
  by (simp add: for_loop_def)

lemma for_loop_pointwise:
  "for_loop lo hi (\<lambda>i a. a(i := g i (a i))) a0 =
     (\<lambda>i. if lo \<le> i \<and> i < hi then g i (a0 i) else a0 i)"
proof (induction hi)
  case 0
  show ?case by (simp add: for_loop_empty)
next
  case (Suc hi)
  show ?case
  proof (cases "lo \<le> hi")
    case True
    then have "for_loop lo (Suc hi) (\<lambda>i a. a(i := g i (a i))) a0 =
        (for_loop lo hi (\<lambda>i a. a(i := g i (a i))) a0)
          (hi := g hi ((for_loop lo hi (\<lambda>i a. a(i := g i (a i))) a0) hi))"
      by (rule for_loop_Suc)
    also have "\<dots> = (\<lambda>i. if lo \<le> i \<and> i < Suc hi then g i (a0 i) else a0 i)"
      unfolding Suc.IH using True by (auto simp: fun_eq_iff)
    finally show ?thesis .
  next
    case False
    then show ?thesis
      by (auto simp: for_loop_empty fun_eq_iff)
  qed
qed

lemma for_loop_shift:
  "for_loop (lo + d) (hi + d) body s = for_loop lo hi (\<lambda>i. body (i + d)) s"
proof (induction hi)
  case 0
  show ?case by (simp add: for_loop_empty)
next
  case (Suc hi)
  show ?case
  proof (cases "lo \<le> hi")
    case True
    then have "for_loop (lo + d) (Suc (hi + d)) body s = body (hi + d) (for_loop (lo + d) (hi + d) body s)"
      by (intro for_loop_Suc) simp
    with True show ?thesis by (simp add: for_loop_Suc Suc.IH)
  next
    case False
    then show ?thesis by (simp add: for_loop_empty)
  qed
qed

lemma for_loop_fill:
  "for_loop lo hi (\<lambda>i a. a(i := g i)) a0 = (\<lambda>i. if lo \<le> i \<and> i < hi then g i else a0 i)"
  using for_loop_pointwise[of lo hi "\<lambda>i _. g i" a0] by simp

lemma interpolator_init:
  "interpolator (ambi_bin_init cfg pData sampleRate) =
     (\<lambda>t. if t < TIME_SLOTS cfg
          then fround (fdiv (fmul (float_of_int (int (t + 1))) (Fin 1))
                            (float_of_int (int (TIME_SLOTS cfg))))
          else interpolator pData t)"
proof -
  have "interpolator (ambi_bin_init cfg pData sampleRate) =
        for_loop (0 + 1) (TIME_SLOTS cfg + 1) (\<lambda>i v. v(i - 1 :=
           fround (fdiv (fmul (float_of_int (int i)) (Fin 1))
                        (float_of_int (int (TIME_SLOTS cfg))))))
           (interpolator pData)"
    by (simp add: ambi_bin_init_def)
  also have "\<dots> = for_loop 0 (TIME_SLOTS cfg) (\<lambda>i v. v(i :=
           fround (fdiv (fmul (float_of_int (int (i + 1))) (Fin 1))
                        (float_of_int (int (TIME_SLOTS cfg))))))
           (interpolator pData)"
    unfolding for_loop_shift by simp
  also have "\<dots> = (\<lambda>t. if t < TIME_SLOTS cfg
          then fround (fdiv (fmul (float_of_int (int (t + 1))) (Fin 1))
                            (float_of_int (int (TIME_SLOTS cfg))))
          else interpolator pData t)"
    using for_loop_fill[of 0 "TIME_SLOTS cfg"
        "\<lambda>i. fround (fdiv (fmul (float_of_int (int (i + 1))) (Fin 1))
                           (float_of_int (int (TIME_SLOTS cfg))))"
        "interpolator pData"]
    by simp
  finally show ?thesis .
qed

lemma ramp_value:
  "0 < TIME_SLOTS cfg \<Longrightarrow> t < TIME_SLOTS cfg \<Longrightarrow>
   interpolator (ambi_bin_init cfg pData sampleRate) t
     = Fin (float_round (real (t + 1) / real (TIME_SLOTS cfg)))"
  by (simp add: interpolator_init float_of_int_def)


section \<open>The interpolation ramp\<close>

text \<open>
  C8. The ramp \<^verbatim>\<open>interpolator\<close> that \<^verbatim>\<open>ambi_bin_init\<close> writes, for a positive
  \<^verbatim>\<open>TIME_SLOTS\<close> of at most \<open>2 ^ 23\<close>: entry \<open>t\<close> is the float nearest to
  \<open>(t + 1) / TIME_SLOTS\<close>; the entries increase strictly and lie in \<open>(0, 1]\<close>; the last
  one is \<open>1\<close>; the first one is \<open>1 / TIME_SLOTS\<close> rounded, within a relative error of
  \<open>2 ^ -24\<close>; and when \<^verbatim>\<open>TIME_SLOTS\<close> is a power of two every entry is
  \<open>(t + 1) / TIME_SLOTS\<close> exactly. Exactly the first \<^verbatim>\<open>TIME_SLOTS\<close> cells are written.
\<close>

theorem ambi_bin_init_ramp:
  assumes "0 < TIME_SLOTS cfg" "TIME_SLOTS cfg \<le> 2 ^ 23"
  shows "(\<forall>t. t < TIME_SLOTS cfg \<longrightarrow>
            interpolator (ambi_bin_init cfg pData sampleRate) t
              = Fin (float_round (real (t + 1) / real (TIME_SLOTS cfg))))
       \<and> (\<forall>i j. i < j \<and> j < TIME_SLOTS cfg \<longrightarrow>
            flt (interpolator (ambi_bin_init cfg pData sampleRate) i)
                (interpolator (ambi_bin_init cfg pData sampleRate) j))
       \<and> (\<forall>t. t < TIME_SLOTS cfg \<longrightarrow>
            flt (Fin 0) (interpolator (ambi_bin_init cfg pData sampleRate) t)
          \<and> fle (interpolator (ambi_bin_init cfg pData sampleRate) t) (Fin 1))
       \<and> interpolator (ambi_bin_init cfg pData sampleRate) (TIME_SLOTS cfg - 1) = Fin 1
       \<and> interpolator (ambi_bin_init cfg pData sampleRate) 0
           = Fin (float_round (1 / real (TIME_SLOTS cfg)))
       \<and> \<bar>float_round (1 / real (TIME_SLOTS cfg)) - 1 / real (TIME_SLOTS cfg)\<bar>
           \<le> 1 / real (TIME_SLOTS cfg) / 2 ^ 24
       \<and> (TIME_SLOTS cfg = 2 ^ k \<longrightarrow>
            (\<forall>t. t < TIME_SLOTS cfg \<longrightarrow>
               interpolator (ambi_bin_init cfg pData sampleRate) t
                 = Fin (real (t + 1) / real (TIME_SLOTS cfg))))
       \<and> (\<forall>t. TIME_SLOTS cfg \<le> t \<longrightarrow>
            interpolator (ambi_bin_init cfg pData sampleRate) t = interpolator pData t)"
proof -
  let ?T = "TIME_SLOTS cfg"
  let ?ramp = "interpolator (ambi_bin_init cfg pData sampleRate)"
  have val: "?ramp t = Fin (float_round (real (t + 1) / real ?T))" if "t < ?T" for t
    using assms(1) that by (rule ramp_value)
  have less: "float_round (real (i + 1) / real ?T) < float_round (real (j + 1) / real ?T)"
    if "i < j" "j < ?T" for i j
    using that assms(2) by (intro float_round_ramp_less) simp_all
  have one: "float_round (real ?T / real ?T) = 1"
    using assms(1) float_round_dyadic [of 1 0] by simp
  have last: "?ramp (?T - 1) = Fin 1"
    using assms(1) val [of "?T - 1"] one by simp
  have pos: "0 < float_round (real (t + 1) / real ?T)" if "t < ?T" for t
    using assms(1) by (intro float_round_pos) simp
  have le1: "float_round (real (t + 1) / real ?T) \<le> 1" if "t < ?T" for t
  proof (cases "t = ?T - 1")
    case True
    then show ?thesis using assms(1) one by simp
  next
    case False
    then have "t < ?T - 1" "?T - 1 < ?T" using that by simp_all
    then have "float_round (real (t + 1) / real ?T) < float_round (real (?T - 1 + 1) / real ?T)"
      by (rule less)
    then show ?thesis using assms(1) one by simp
  qed
  have exact: "?ramp t = Fin (real (t + 1) / real ?T)" if "?T = 2 ^ k" "t < ?T" for t
  proof -
    have "t + 1 < 2 ^ 24"
      using that(2) assms(2) by simp
    then have "float_round (real (t + 1) / 2 ^ k) = real (t + 1) / 2 ^ k"
      by (intro float_round_dyadic) simp_all
    then show ?thesis using val [OF that(2)] that(1) by simp
  qed
  have a: "\<forall>t. t < ?T \<longrightarrow> ?ramp t = Fin (float_round (real (t + 1) / real ?T))"
    using val by simp
  have b: "\<forall>i j. i < j \<and> j < ?T \<longrightarrow> flt (?ramp i) (?ramp j)"
    using val less by simp
  have c: "\<forall>t. t < ?T \<longrightarrow> flt (Fin 0) (?ramp t) \<and> fle (?ramp t) (Fin 1)"
    using val pos le1 by (simp add: fle_def not_less)
  have d: "?ramp 0 = Fin (float_round (1 / real ?T))"
    using val [OF assms(1)] by simp
  have e: "\<bar>float_round (1 / real ?T) - 1 / real ?T\<bar> \<le> 1 / real ?T / 2 ^ 24"
    using float_round_error [of "1 / real ?T"] by simp
  have f: "?T = 2 ^ k \<longrightarrow> (\<forall>t. t < ?T \<longrightarrow> ?ramp t = Fin (real (t + 1) / real ?T))"
    using exact by simp
  have g: "\<forall>t. ?T \<le> t \<longrightarrow> ?ramp t = interpolator pData t"
    by (simp add: interpolator_init)
  from a b c last d e f g show ?thesis by blast
qed

theorem ambi_bin_init_ramp_witness:
  "0 < TIME_SLOTS example_cfg \<and> TIME_SLOTS example_cfg \<le> 2 ^ 23
   \<and> interpolator (ambi_bin_init example_cfg example_ambi 48000) 0 = Fin (1 / 2)
   \<and> interpolator (ambi_bin_init example_cfg example_ambi 48000) 1 = Fin 1
   \<and> flt (interpolator (ambi_bin_init example_cfg example_ambi 48000) 0)
          (interpolator (ambi_bin_init example_cfg example_ambi 48000) 1)
   \<and> interpolator (ambi_bin_init example_cfg example_ambi 48000) 2 = interpolator example_ambi 2"
proof -
  have h: "0 < TIME_SLOTS example_cfg" "TIME_SLOTS example_cfg \<le> 2 ^ 23"
    by (simp_all add: example_cfg_def)
  have t: "TIME_SLOTS example_cfg = 2" by (simp add: example_cfg_def)
  show ?thesis
    using ambi_bin_init_ramp [OF h, of example_ambi 48000 1]
    by (simp add: t float_round_half float_round_one)
qed

text \<open>
  With three time slots the first entry is the float nearest to \<open>1/3\<close>, which is not
  \<open>1/3\<close>.
\<close>

theorem ambi_bin_init_ramp_counterexample:
  "interpolator (ambi_bin_init (example_cfg\<lparr>TIME_SLOTS := 3\<rparr>) example_ambi 48000) 0
     = Fin (11184811 / 33554432)
   \<and> interpolator (ambi_bin_init (example_cfg\<lparr>TIME_SLOTS := 3\<rparr>) example_ambi 48000) 0
     \<noteq> Fin (1 / real (TIME_SLOTS (example_cfg\<lparr>TIME_SLOTS := 3\<rparr>)))"
  using ramp_value [of "example_cfg\<lparr>TIME_SLOTS := 3\<rparr>" 0 example_ambi 48000]
  by (simp add: float_round_third)

section \<open>Array and BLAS lemmas\<close>

lemma for_cells_apply:
  "for_cells lo hi g a i = (if lo \<le> i \<and> i < hi then g i (a i) else a i)"
  by (simp add: for_cells_def for_loop_pointwise)

lemma memcpy_n_apply: "memcpy_n n dst src k = (if k < n then src k else dst k)"
  by (simp add: memcpy_n_def for_cells_apply)

lemma memset_n_apply: "memset_n n v dst k = (if k < n then v else dst k)"
  by (simp add: memset_n_def for_cells_apply)

lemma cblas_cgemm_apply:
  "cblas_cgemm M N K A B C i j = (if i < M \<and> j < N then cdot K (A i) (\<lambda>l. B l j) else C i j)"
  by (simp add: cblas_cgemm_def for_cells_apply)

lemma silence_apply:
  "silence cfg nOutputs outputs ch i =
     (if ch < nat nOutputs \<and> i < FRAME_SIZE cfg then Fin 0 else outputs ch i)"
  by (simp add: silence_def for_cells_apply memset_n_apply)

lemma for_loop_0_1: "for_loop 0 (Suc 0) body s = body 0 s"
  by (simp add: for_loop_def)

lemma for_loop_0_2: "for_loop 0 2 body s = body 1 (body 0 s)"
  by (simp add: for_loop_def upt_rec numeral_2_eq_2)

lemma write_hop_apply:
  "write_hop cfg t src dst k =
     (if t * HOP_SIZE cfg \<le> k \<and> k < t * HOP_SIZE cfg + HOP_SIZE cfg
      then src (k - t * HOP_SIZE cfg) else dst k)"
proof -
  have "for_loop 0 n (\<lambda>sample d. d(sample + c := src sample)) dst k =
          (if c \<le> k \<and> k < c + n then src (k - c) else dst k)" for n c
    by (induction n) (auto simp: for_loop_empty for_loop_Suc)
  then show ?thesis by (simp add: write_hop_def)
qed

lemma binauraliser_main_not_playing:
  "outputframeTF (binauraliser_main cfg ext nSrc enableRot 0 pData) = (\<lambda>band ear t. czero)"
  by (simp add: binauraliser_main_def)

section \<open>Silent blocks\<close>

text \<open>
  C1. \<^verbatim>\<open>ambi_bin_process\<close> takes its silent branch when the sample count is not
  \<^verbatim>\<open>FRAME_SIZE\<close>, when \<^verbatim>\<open>isPlaying\<close> is false, or when a reinit flag is not clean after
  the rebuilds; \<^verbatim>\<open>binauraliser_process\<close> when the sample count is wrong, when
  \<^verbatim>\<open>hrtf_fb\<close> is \<^verbatim>\<open>NULL\<close>, or when a reinit flag is not clean. The silent branch writes
  zero to the first \<^verbatim>\<open>FRAME_SIZE\<close> samples of each of the first \<^verbatim>\<open>nOutputs\<close> channels,
  whatever the sample count is, and leaves every other sample of the output buffers as
  it was. With \<^verbatim>\<open>isPlaying\<close> false on an otherwise valid block,
  \<^verbatim>\<open>binauraliser_process\<close> zeroes the subband tensor \<^verbatim>\<open>outputframeTF\<close> and still runs
  the synthesis filterbank on it.
\<close>

theorem process_silence:
  "(nSamples \<noteq> int (FRAME_SIZE cfg) \<or> isPlaying = 0
      \<or> reInitCodec (ambi_bin_process_reinit ext hAmbi) \<noteq> 0
      \<or> reInitTFT (ambi_bin_process_reinit ext hAmbi) \<noteq> 0
    \<longrightarrow> (\<forall>ch i.
           snd (ambi_bin_process cfg ext hAmbi inputs outputs nInputs nOutputs nSamples isPlaying) ch i
             = (if ch < nat nOutputs \<and> i < FRAME_SIZE cfg then Fin 0 else outputs ch i)))
   \<and> (nSamples \<noteq> int (FRAME_SIZE cfg)
      \<or> hrtf_fb (binauraliser_process_reinit cfg bext hBin) = None
      \<or> b_reInitTFT (binauraliser_process_reinit cfg bext hBin) \<noteq> 0
      \<or> reInitHRTFsAndGainTables (binauraliser_process_reinit cfg bext hBin) \<noteq> 0
    \<longrightarrow> (\<forall>ch i.
           snd (binauraliser_process cfg bext hBin binputs boutputs nInputs nOutputs nSamples isPlaying) ch i
             = (if ch < nat nOutputs \<and> i < FRAME_SIZE cfg then Fin 0 else boutputs ch i)))
   \<and> (nSamples = int (FRAME_SIZE cfg)
      \<and> hrtf_fb (binauraliser_process_reinit cfg bext hBin) \<noteq> None
      \<and> b_reInitTFT (binauraliser_process_reinit cfg bext hBin) = 0
      \<and> reInitHRTFsAndGainTables (binauraliser_process_reinit cfg bext hBin) = 0
    \<longrightarrow> (\<forall>band ear t.
           outputframeTF (fst (binauraliser_process cfg bext hBin binputs boutputs nInputs nOutputs nSamples 0))
             band ear t = czero))"
proof (intro conjI impI allI)
  fix ch i
  assume g: "nSamples \<noteq> int (FRAME_SIZE cfg) \<or> isPlaying = 0
      \<or> reInitCodec (ambi_bin_process_reinit ext hAmbi) \<noteq> 0
      \<or> reInitTFT (ambi_bin_process_reinit ext hAmbi) \<noteq> 0"
  from g have "ambi_bin_process cfg ext hAmbi inputs outputs nInputs nOutputs nSamples isPlaying
           = (ambi_bin_process_reinit ext hAmbi, silence cfg nOutputs outputs)"
    by (auto simp: ambi_bin_process_def Let_def)
  then show "snd (ambi_bin_process cfg ext hAmbi inputs outputs nInputs nOutputs nSamples isPlaying) ch i
             = (if ch < nat nOutputs \<and> i < FRAME_SIZE cfg then Fin 0 else outputs ch i)"
    by (simp add: silence_apply)
next
  fix ch i
  assume g: "nSamples \<noteq> int (FRAME_SIZE cfg)
      \<or> hrtf_fb (binauraliser_process_reinit cfg bext hBin) = None
      \<or> b_reInitTFT (binauraliser_process_reinit cfg bext hBin) \<noteq> 0
      \<or> reInitHRTFsAndGainTables (binauraliser_process_reinit cfg bext hBin) \<noteq> 0"
  from g have "binauraliser_process cfg bext hBin binputs boutputs nInputs nOutputs nSamples isPlaying
           = (binauraliser_process_reinit cfg bext hBin, silence cfg nOutputs boutputs)"
    by (auto simp: binauraliser_process_def Let_def)
  then show "snd (binauraliser_process cfg bext hBin binputs boutputs nInputs nOutputs nSamples isPlaying) ch i
             = (if ch < nat nOutputs \<and> i < FRAME_SIZE cfg then Fin 0 else boutputs ch i)"
    by (simp add: silence_apply)
next
  fix band ear t
  assume "nSamples = int (FRAME_SIZE cfg)
      \<and> hrtf_fb (binauraliser_process_reinit cfg bext hBin) \<noteq> None
      \<and> b_reInitTFT (binauraliser_process_reinit cfg bext hBin) = 0
      \<and> reInitHRTFsAndGainTables (binauraliser_process_reinit cfg bext hBin) = 0"
  then show "outputframeTF (fst (binauraliser_process cfg bext hBin binputs boutputs nInputs nOutputs nSamples 0))
             band ear t = czero"
    by (auto simp: binauraliser_process_def binauraliser_process_block_def Let_def
        binauraliser_main_not_playing)
qed

text \<open>The definitions of the example build and states, for evaluation.\<close>

lemmas example_defs =
  example_cfg_def example_stft_def example_ambi_ext_def example_ambi_def
  example_bin_ext_def example_bin_def

theorem process_silence_witness:
  "snd (ambi_bin_process example_cfg example_ambi_ext example_ambi
          (\<lambda>ch k. Fin 1) (\<lambda>ch k. Fin 7) 1 2 4 0) 1 3 = Fin 0
   \<and> snd (binauraliser_process example_cfg example_bin_ext example_bin
          (\<lambda>ch k. Fin 1) (\<lambda>ch k. Fin 7) 1 2 3 1) 0 0 = Fin 0
   \<and> snd (binauraliser_process example_cfg example_bin_ext example_bin
          (\<lambda>ch k. Fin 1) (\<lambda>ch k. Fin 7) 1 2 3 1) 0 4 = Fin 7
   \<and> snd (ambi_bin_process example_cfg example_ambi_ext example_ambi
          (\<lambda>ch k. Fin 1) (\<lambda>ch k. Fin 7) 1 2 4 0) 2 0 = Fin 7
   \<and> outputframeTF (fst (binauraliser_process example_cfg example_bin_ext example_bin
          (\<lambda>ch k. Fin 1) (\<lambda>ch k. Fin 7) 1 2 4 0)) 0 1 1 = czero"
  using process_silence [where nSamples = 4 and cfg = example_cfg and isPlaying = 0
      and ext = example_ambi_ext and hAmbi = example_ambi and nOutputs = 2
      and inputs = "\<lambda>ch k. Fin 1" and outputs = "\<lambda>ch k. Fin 7" and nInputs = 1
      and bext = example_bin_ext and hBin = example_bin
      and binputs = "\<lambda>ch k. Fin 1" and boutputs = "\<lambda>ch k. Fin 7"]
    process_silence [where nSamples = 3 and cfg = example_cfg and isPlaying = 1
      and ext = example_ambi_ext and hAmbi = example_ambi and nOutputs = 2
      and inputs = "\<lambda>ch k. Fin 1" and outputs = "\<lambda>ch k. Fin 7" and nInputs = 1
      and bext = example_bin_ext and hBin = example_bin
      and binputs = "\<lambda>ch k. Fin 1" and boutputs = "\<lambda>ch k. Fin 7"]
  by (simp add: example_defs binauraliser_process_reinit_def binauraliser_reinit_TFT_def)

text \<open>
  With \<^verbatim>\<open>isPlaying\<close> false, \<^verbatim>\<open>binauraliser_process\<close> emits what the synthesis
  filterbank still holds: here the hop of ones in its handle. And with six samples
  instead of the frame's four, \<^verbatim>\<open>ambi_bin_process\<close> clears the first four samples of a
  channel and leaves the sixth at the value the caller's buffer held.
\<close>

theorem process_silence_counterexample:
  "snd (binauraliser_process example_cfg example_bin_ext (example_bin\<lparr>b_hSTFT := (\<lambda>ch k. Fin 1)\<rparr>)
         (\<lambda>ch k. Fin 0) (\<lambda>ch k. Fin 0) 1 2 4 0) 0 0 = Fin 1
   \<and> snd (ambi_bin_process example_cfg example_ambi_ext example_ambi
         (\<lambda>ch k. Fin 1) (\<lambda>ch k. Fin 7) 1 2 6 1) 0 5 = Fin 7"
proof -
  have a: "snd (binauraliser_process example_cfg example_bin_ext (example_bin\<lparr>b_hSTFT := (\<lambda>ch k. Fin 1)\<rparr>)
         (\<lambda>ch k. Fin 0) (\<lambda>ch k. Fin 0) 1 2 4 0) 0 0 = Fin 1"
    by (simp add: binauraliser_process_def binauraliser_process_block_def Let_def example_defs
      binauraliser_process_reinit_def
      binauraliser_reinit_TFT_def binauraliser_inverse_TFT_def binauraliser_analyse_def
      binauraliser_forward_TFT_def binauraliser_main_def binauraliser_load_TD_def
      for_loop_0_2 for_loop_0_1 for_cells_apply write_hop_apply split_def)
  have b: "snd (ambi_bin_process example_cfg example_ambi_ext example_ambi
         (\<lambda>ch k. Fin 1) (\<lambda>ch k. Fin 7) 1 2 6 1) 0 5 = Fin 7"
    by (simp add: ambi_bin_process_def Let_def silence_apply example_cfg_def)
  from a b show ?thesis ..
qed

section \<open>Source directions\<close>

lemma clamp_range:
  "lo \<le> hi \<Longrightarrow> fle (Fin lo) (MIN_f (MAX_f x (Fin lo)) (Fin hi))
                \<and> fle (MIN_f (MAX_f x (Fin lo)) (Fin hi)) (Fin hi)"
  by (cases x) (auto simp: MIN_f_def MAX_f_def fgt_def fle_def)

lemma setSourceAzi_stored:
  "binauraliser_getSourceAzi_deg (binauraliser_setSourceAzi_deg pData index x) index =
     MIN_f (MAX_f (if fgt x (Fin 180) then fadd (Fin (- 360)) x else x) (Fin (- 180))) (Fin 180)"
  by (simp add: binauraliser_getSourceAzi_deg_def binauraliser_setSourceAzi_deg_def Let_def)

lemma setSourceElev_stored:
  "binauraliser_getSourceElev_deg (binauraliser_setSourceElev_deg pData index x) index =
     MIN_f (MAX_f x (Fin (- 90))) (Fin 90)"
  by (simp add: binauraliser_getSourceElev_deg_def binauraliser_setSourceElev_deg_def Let_def)

text \<open>
  C6. For an index within the array, the azimuth \<^verbatim>\<open>binauraliser_setSourceAzi_deg\<close>
  stores lies in the closed interval \<open>[-180, 180]\<close> whatever the argument: an argument
  in \<open>(180, 540]\<close> is stored less 360, one in \<open>[-180, 180]\<close> as it is, and one below
  \<open>-180\<close> as \<open>-180\<close>. The elevation \<^verbatim>\<open>binauraliser_setSourceElev_deg\<close> stores lies in
  \<open>[-90, 90]\<close>, an argument in that interval being stored as it is.
\<close>

theorem binauraliser_setSource_range:
  "index < MAX_NUM_INPUTS cfg \<longrightarrow>
     fle (Fin (- 180)) (binauraliser_getSourceAzi_deg (binauraliser_setSourceAzi_deg pData index x) index)
   \<and> fle (binauraliser_getSourceAzi_deg (binauraliser_setSourceAzi_deg pData index x) index) (Fin 180)
   \<and> (180 < r \<and> r \<le> 540 \<longrightarrow>
        binauraliser_getSourceAzi_deg (binauraliser_setSourceAzi_deg pData index (Fin r)) index
          = Fin (r - 360))
   \<and> (- 180 \<le> r \<and> r \<le> 180 \<longrightarrow>
        binauraliser_getSourceAzi_deg (binauraliser_setSourceAzi_deg pData index (Fin r)) index = Fin r)
   \<and> (r < - 180 \<longrightarrow>
        binauraliser_getSourceAzi_deg (binauraliser_setSourceAzi_deg pData index (Fin r)) index
          = Fin (- 180))
   \<and> fle (Fin (- 90)) (binauraliser_getSourceElev_deg (binauraliser_setSourceElev_deg pData index x) index)
   \<and> fle (binauraliser_getSourceElev_deg (binauraliser_setSourceElev_deg pData index x) index) (Fin 90)
   \<and> (- 90 \<le> r \<and> r \<le> 90 \<longrightarrow>
        binauraliser_getSourceElev_deg (binauraliser_setSourceElev_deg pData index (Fin r)) index = Fin r)"
proof -
  have a: "fle (Fin (- 180)) (MIN_f (MAX_f y (Fin (- 180))) (Fin 180))
           \<and> fle (MIN_f (MAX_f y (Fin (- 180))) (Fin 180)) (Fin 180)" for y
    using clamp_range [of "- 180" 180 y] by simp
  have e: "fle (Fin (- 90)) (MIN_f (MAX_f x (Fin (- 90))) (Fin 90))
           \<and> fle (MIN_f (MAX_f x (Fin (- 90))) (Fin 90)) (Fin 90)"
    using clamp_range [of "- 90" 90 x] by simp
  have w: "180 < r \<and> r \<le> 540 \<longrightarrow>
        MIN_f (MAX_f (if fgt (Fin r) (Fin 180) then fadd (Fin (- 360)) (Fin r) else Fin r) (Fin (- 180))) (Fin 180)
          = Fin (r - 360)"
    by (auto simp: fgt_def MIN_f_def MAX_f_def)
  have i: "- 180 \<le> r \<and> r \<le> 180 \<longrightarrow>
        MIN_f (MAX_f (if fgt (Fin r) (Fin 180) then fadd (Fin (- 360)) (Fin r) else Fin r) (Fin (- 180))) (Fin 180)
          = Fin r"
    by (auto simp: fgt_def MIN_f_def MAX_f_def)
  have l: "r < - 180 \<longrightarrow>
        MIN_f (MAX_f (if fgt (Fin r) (Fin 180) then fadd (Fin (- 360)) (Fin r) else Fin r) (Fin (- 180))) (Fin 180)
          = Fin (- 180)"
    by (auto simp: fgt_def MIN_f_def MAX_f_def)
  have ei: "- 90 \<le> r \<and> r \<le> 90 \<longrightarrow> MIN_f (MAX_f (Fin r) (Fin (- 90))) (Fin 90) = Fin r"
    by (auto simp: fgt_def MIN_f_def MAX_f_def)
  show ?thesis
    unfolding setSourceAzi_stored setSourceElev_stored
    using a e w i l ei by blast
qed

theorem binauraliser_setSource_range_witness:
  "(0::nat) < MAX_NUM_INPUTS example_cfg
   \<and> binauraliser_getSourceAzi_deg (binauraliser_setSourceAzi_deg example_bin 0 (Fin 190)) 0
       = Fin (- 170)
   \<and> binauraliser_getSourceAzi_deg (binauraliser_setSourceAzi_deg example_bin 0 (Fin 180)) 0
       = Fin 180
   \<and> fle (Fin (- 90)) (binauraliser_getSourceElev_deg (binauraliser_setSourceElev_deg example_bin 0 NaN) 0)
   \<and> fle (binauraliser_getSourceElev_deg (binauraliser_setSourceElev_deg example_bin 0 PInf) 0) (Fin 90)"
  using binauraliser_setSource_range [of 0 example_cfg example_bin NaN 190]
    binauraliser_setSource_range [of 0 example_cfg example_bin PInf 180]
  by (simp add: example_cfg_def)

text \<open>
  An argument of \<open>-200\<close> is not wrapped to \<open>160\<close>: the stored azimuth is \<open>-180\<close>, the
  excluded end of \<open>(-180, 180]\<close>.
\<close>

theorem binauraliser_setSource_range_counterexample:
  "binauraliser_getSourceAzi_deg (binauraliser_setSourceAzi_deg example_bin 0 (Fin (- 200))) 0
     = Fin (- 180)
   \<and> \<not> flt (Fin (- 180))
        (binauraliser_getSourceAzi_deg (binauraliser_setSourceAzi_deg example_bin 0 (Fin (- 200))) 0)"
  by (simp add: setSourceAzi_stored fgt_def MIN_f_def MAX_f_def)

section \<open>Axis flips\<close>

lemma fneg_fneg: "fneg (fneg x) = x"
  by (cases x) simp_all

lemma DEG2RAD_RAD2DEG: "DEG2RAD (RAD2DEG x) = x"
  by (cases x) (simp_all add: DEG2RAD_def RAD2DEG_def inf_of_sign_def)

lemma DEG2RAD_fneg: "DEG2RAD (fneg x) = fneg (DEG2RAD x)"
  by (cases x) (simp_all add: DEG2RAD_def inf_of_sign_def)

lemma RAD2DEG_fneg: "RAD2DEG (fneg x) = fneg (RAD2DEG x)"
  by (cases x) (simp_all add: RAD2DEG_def inf_of_sign_def)

lemmas flip_simps = fneg_fneg DEG2RAD_RAD2DEG DEG2RAD_fneg RAD2DEG_fneg

lemma ambi_bin_setFlipYaw_flip:
  "newState \<noteq> bFlipYaw pData \<Longrightarrow>
     yaw (ambi_bin_setFlipYaw pData newState) = fneg (yaw pData)
   \<and> ambi_bin_getYaw (ambi_bin_setFlipYaw pData newState) =
       (if (bFlipYaw pData = 1) \<noteq> (newState = 1) then ambi_bin_getYaw pData
        else fneg (ambi_bin_getYaw pData))"
  by (auto simp: ambi_bin_setFlipYaw_def ambi_bin_setYaw_def ambi_bin_getYaw_def Let_def flip_simps)

lemma ambi_bin_setFlipPitch_flip:
  "newState \<noteq> bFlipPitch pData \<Longrightarrow>
     pitch (ambi_bin_setFlipPitch pData newState) = fneg (pitch pData)
   \<and> ambi_bin_getPitch (ambi_bin_setFlipPitch pData newState) =
       (if (bFlipPitch pData = 1) \<noteq> (newState = 1) then ambi_bin_getPitch pData
        else fneg (ambi_bin_getPitch pData))"
  by (auto simp: ambi_bin_setFlipPitch_def ambi_bin_setPitch_def ambi_bin_getPitch_def Let_def flip_simps)

lemma ambi_bin_setFlipRoll_flip:
  "newState \<noteq> bFlipRoll pData \<Longrightarrow>
     roll (ambi_bin_setFlipRoll pData newState) = fneg (roll pData)
   \<and> ambi_bin_getRoll (ambi_bin_setFlipRoll pData newState) =
       (if (bFlipRoll pData = 1) \<noteq> (newState = 1) then ambi_bin_getRoll pData
        else fneg (ambi_bin_getRoll pData))"
  by (auto simp: ambi_bin_setFlipRoll_def ambi_bin_setRoll_def ambi_bin_getRoll_def Let_def flip_simps)

lemma binauraliser_setFlipYaw_flip:
  "newState \<noteq> b_bFlipYaw bData \<Longrightarrow>
     b_yaw (binauraliser_setFlipYaw bData newState) = fneg (b_yaw bData)
   \<and> binauraliser_getYaw (binauraliser_setFlipYaw bData newState) =
       (if (b_bFlipYaw bData = 1) \<noteq> (newState = 1) then binauraliser_getYaw bData
        else fneg (binauraliser_getYaw bData))"
  by (auto simp: binauraliser_setFlipYaw_def binauraliser_setYaw_def binauraliser_getYaw_def Let_def flip_simps)

lemma binauraliser_setFlipPitch_flip:
  "newState \<noteq> b_bFlipPitch bData \<Longrightarrow>
     b_pitch (binauraliser_setFlipPitch bData newState) = fneg (b_pitch bData)
   \<and> binauraliser_getPitch (binauraliser_setFlipPitch bData newState) =
       (if (b_bFlipPitch bData = 1) \<noteq> (newState = 1) then binauraliser_getPitch bData
        else fneg (binauraliser_getPitch bData))"
  by (auto simp: binauraliser_setFlipPitch_def binauraliser_setPitch_def binauraliser_getPitch_def Let_def flip_simps)

lemma binauraliser_setFlipRoll_flip:
  "newState \<noteq> b_bFlipRoll bData \<Longrightarrow>
     b_roll (binauraliser_setFlipRoll bData newState) = fneg (b_roll bData)
   \<and> binauraliser_getRoll (binauraliser_setFlipRoll bData newState) =
       (if (b_bFlipRoll bData = 1) \<noteq> (newState = 1) then binauraliser_getRoll bData
        else fneg (binauraliser_getRoll bData))"
  by (auto simp: binauraliser_setFlipRoll_def binauraliser_setRoll_def binauraliser_getRoll_def Let_def flip_simps)

text \<open>
  C10. A flip setter called with the flag's current value changes nothing. Called with
  another value it negates the stored angle, and the getter returns the degree value
  it returned before whenever exactly one of the old and the new flag value is 1 (so
  for every change between 0 and 1). This holds for the three axes of both engines;
  the conversions between degrees and radians are taken as exact.
\<close>

theorem setFlip_keeps_degrees:
  "(newState = bFlipYaw pData \<longrightarrow> ambi_bin_setFlipYaw pData newState = pData)
   \<and> (newState = bFlipPitch pData \<longrightarrow> ambi_bin_setFlipPitch pData newState = pData)
   \<and> (newState = bFlipRoll pData \<longrightarrow> ambi_bin_setFlipRoll pData newState = pData)
   \<and> (newState = b_bFlipYaw bData \<longrightarrow> binauraliser_setFlipYaw bData newState = bData)
   \<and> (newState = b_bFlipPitch bData \<longrightarrow> binauraliser_setFlipPitch bData newState = bData)
   \<and> (newState = b_bFlipRoll bData \<longrightarrow> binauraliser_setFlipRoll bData newState = bData)
   \<and> (newState \<noteq> bFlipYaw pData \<longrightarrow>
        yaw (ambi_bin_setFlipYaw pData newState) = fneg (yaw pData)
        \<and> ((bFlipYaw pData = 1) \<noteq> (newState = 1) \<longrightarrow>
             ambi_bin_getYaw (ambi_bin_setFlipYaw pData newState) = ambi_bin_getYaw pData))
   \<and> (newState \<noteq> bFlipPitch pData \<longrightarrow>
        pitch (ambi_bin_setFlipPitch pData newState) = fneg (pitch pData)
        \<and> ((bFlipPitch pData = 1) \<noteq> (newState = 1) \<longrightarrow>
             ambi_bin_getPitch (ambi_bin_setFlipPitch pData newState) = ambi_bin_getPitch pData))
   \<and> (newState \<noteq> bFlipRoll pData \<longrightarrow>
        roll (ambi_bin_setFlipRoll pData newState) = fneg (roll pData)
        \<and> ((bFlipRoll pData = 1) \<noteq> (newState = 1) \<longrightarrow>
             ambi_bin_getRoll (ambi_bin_setFlipRoll pData newState) = ambi_bin_getRoll pData))
   \<and> (newState \<noteq> b_bFlipYaw bData \<longrightarrow>
        b_yaw (binauraliser_setFlipYaw bData newState) = fneg (b_yaw bData)
        \<and> ((b_bFlipYaw bData = 1) \<noteq> (newState = 1) \<longrightarrow>
             binauraliser_getYaw (binauraliser_setFlipYaw bData newState) = binauraliser_getYaw bData))
   \<and> (newState \<noteq> b_bFlipPitch bData \<longrightarrow>
        b_pitch (binauraliser_setFlipPitch bData newState) = fneg (b_pitch bData)
        \<and> ((b_bFlipPitch bData = 1) \<noteq> (newState = 1) \<longrightarrow>
             binauraliser_getPitch (binauraliser_setFlipPitch bData newState) = binauraliser_getPitch bData))
   \<and> (newState \<noteq> b_bFlipRoll bData \<longrightarrow>
        b_roll (binauraliser_setFlipRoll bData newState) = fneg (b_roll bData)
        \<and> ((b_bFlipRoll bData = 1) \<noteq> (newState = 1) \<longrightarrow>
             binauraliser_getRoll (binauraliser_setFlipRoll bData newState) = binauraliser_getRoll bData))"
proof -
  have same:
    "newState = bFlipYaw pData \<longrightarrow> ambi_bin_setFlipYaw pData newState = pData"
    "newState = bFlipPitch pData \<longrightarrow> ambi_bin_setFlipPitch pData newState = pData"
    "newState = bFlipRoll pData \<longrightarrow> ambi_bin_setFlipRoll pData newState = pData"
    "newState = b_bFlipYaw bData \<longrightarrow> binauraliser_setFlipYaw bData newState = bData"
    "newState = b_bFlipPitch bData \<longrightarrow> binauraliser_setFlipPitch bData newState = bData"
    "newState = b_bFlipRoll bData \<longrightarrow> binauraliser_setFlipRoll bData newState = bData"
    by (simp_all add: ambi_bin_setFlipYaw_def ambi_bin_setFlipPitch_def ambi_bin_setFlipRoll_def
        binauraliser_setFlipYaw_def binauraliser_setFlipPitch_def binauraliser_setFlipRoll_def)
  show ?thesis
    using same
      ambi_bin_setFlipYaw_flip [of newState pData]
      ambi_bin_setFlipPitch_flip [of newState pData]
      ambi_bin_setFlipRoll_flip [of newState pData]
      binauraliser_setFlipYaw_flip [of newState bData]
      binauraliser_setFlipPitch_flip [of newState bData]
      binauraliser_setFlipRoll_flip [of newState bData]
    by (intro conjI impI) simp_all
qed

theorem setFlip_keeps_degrees_witness:
  "yaw (ambi_bin_setFlipYaw (example_ambi\<lparr>yaw := Fin pi\<rparr>) 1) = Fin (- pi)
   \<and> ambi_bin_getYaw (ambi_bin_setFlipYaw (example_ambi\<lparr>yaw := Fin pi\<rparr>) 1) = Fin 180
   \<and> ambi_bin_getYaw (example_ambi\<lparr>yaw := Fin pi\<rparr>) = Fin 180
   \<and> binauraliser_setFlipRoll example_bin 0 = example_bin"
  using setFlip_keeps_degrees [of 1 "example_ambi\<lparr>yaw := Fin pi\<rparr>" example_bin]
    setFlip_keeps_degrees [of 0 "example_ambi\<lparr>yaw := Fin pi\<rparr>" example_bin]
  by (simp add: example_ambi_def example_bin_def ambi_bin_getYaw_def RAD2DEG_def)

text \<open>
  The flags are \<^verbatim>\<open>int\<close>s compared with \<open>1\<close>: from flag 0, the new value 2 negates the
  stored angle and the getter's value with it.
\<close>

theorem setFlip_keeps_degrees_counterexample:
  "ambi_bin_getYaw (example_ambi\<lparr>yaw := Fin pi\<rparr>) = Fin 180
   \<and> ambi_bin_getYaw (ambi_bin_setFlipYaw (example_ambi\<lparr>yaw := Fin pi\<rparr>) 2) = Fin (- 180)"
  by (simp add: example_ambi_def ambi_bin_getYaw_def ambi_bin_setFlipYaw_def ambi_bin_setYaw_def
      RAD2DEG_def DEG2RAD_def Let_def)

section \<open>Configuration setters\<close>

lemma ambi_bin_setUseDefaultHRIRsflag_twice:
  "ambi_bin_setUseDefaultHRIRsflag (ambi_bin_setUseDefaultHRIRsflag pData v) v
     = ambi_bin_setUseDefaultHRIRsflag pData v"
  by (simp add: ambi_bin_setUseDefaultHRIRsflag_def)

lemma binauraliser_setUseDefaultHRIRsflag_twice:
  "binauraliser_setUseDefaultHRIRsflag (binauraliser_setUseDefaultHRIRsflag bData v) v
     = binauraliser_setUseDefaultHRIRsflag bData v"
  by (simp add: binauraliser_setUseDefaultHRIRsflag_def)

lemma ambi_bin_setInputOrderPreset_twice:
  "ambi_bin_setInputOrderPreset (ambi_bin_setInputOrderPreset pData preset) preset
     = ambi_bin_setInputOrderPreset pData preset"
  by (simp add: ambi_bin_setInputOrderPreset_def Let_def)

lemma ambi_bin_setSofaFilePath_twice:
  "ambi_bin_getSofaFilePath (ambi_bin_setSofaFilePath (ambi_bin_setSofaFilePath pData path) path) = path
   \<and> ambi_bin_getSofaFilePath (ambi_bin_setSofaFilePath pData path) = path
   \<and> (ambi_bin_setSofaFilePath (ambi_bin_setSofaFilePath pData path) path)
        \<lparr>strings := strings (ambi_bin_setSofaFilePath pData path),
         pars := (pars (ambi_bin_setSofaFilePath (ambi_bin_setSofaFilePath pData path) path))
            \<lparr>sofa_filepath := sofa_filepath (pars (ambi_bin_setSofaFilePath pData path))\<rparr>\<rparr>
       = ambi_bin_setSofaFilePath pData path"
  by (simp add: ambi_bin_setSofaFilePath_def ambi_bin_getSofaFilePath_def malloc_strcpy_def Let_def nth_append)

lemma binauraliser_setSofaFilePath_twice:
  "binauraliser_getSofaFilePath (binauraliser_setSofaFilePath (binauraliser_setSofaFilePath bData path) path) = path
   \<and> binauraliser_getSofaFilePath (binauraliser_setSofaFilePath bData path) = path
   \<and> (binauraliser_setSofaFilePath (binauraliser_setSofaFilePath bData path) path)
        \<lparr>b_strings := b_strings (binauraliser_setSofaFilePath bData path),
         b_sofa_filepath := b_sofa_filepath (binauraliser_setSofaFilePath bData path)\<rparr>
       = binauraliser_setSofaFilePath bData path"
  by (simp add: binauraliser_setSofaFilePath_def binauraliser_getSofaFilePath_def malloc_strcpy_def Let_def nth_append)

lemma setters_flags:
  "(orderSelected pData \<noteq> preset \<longrightarrow>
       reInitCodec (ambi_bin_setInputOrderPreset pData preset) = 1
     \<and> order (ambi_bin_setInputOrderPreset pData preset) = order_of_preset preset
     \<and> ((order_of_preset preset + 1) * (order_of_preset preset + 1) \<noteq> nSH pData \<longrightarrow>
          reInitTFT (ambi_bin_setInputOrderPreset pData preset) = 1))
   \<and> (orderSelected pData = preset \<longrightarrow> ambi_bin_setInputOrderPreset pData preset = pData)
   \<and> reInitCodec (ambi_bin_setSofaFilePath pData path) = 1
   \<and> useDefaultHRIRsFLAG (ambi_bin_setSofaFilePath pData path) = 0
   \<and> reInitHRTFsAndGainTables (binauraliser_setSofaFilePath bData path) = 1
   \<and> b_useDefaultHRIRsFLAG (binauraliser_setSofaFilePath bData path) = 0
   \<and> (useDefaultHRIRsFLAG pData = 0 \<and> v \<noteq> 0 \<longrightarrow>
        reInitCodec (ambi_bin_setUseDefaultHRIRsflag pData v) = 1
      \<and> useDefaultHRIRsFLAG (ambi_bin_setUseDefaultHRIRsflag pData v) = v)
   \<and> (useDefaultHRIRsFLAG pData \<noteq> 0 \<or> v = 0 \<longrightarrow> ambi_bin_setUseDefaultHRIRsflag pData v = pData)
   \<and> (b_useDefaultHRIRsFLAG bData = 0 \<and> v \<noteq> 0 \<longrightarrow>
        reInitHRTFsAndGainTables (binauraliser_setUseDefaultHRIRsflag bData v) = 1
      \<and> b_useDefaultHRIRsFLAG (binauraliser_setUseDefaultHRIRsflag bData v) = v)
   \<and> (b_useDefaultHRIRsFLAG bData \<noteq> 0 \<or> v = 0 \<longrightarrow>
        binauraliser_setUseDefaultHRIRsflag bData v = bData)"
  by (auto simp: ambi_bin_setInputOrderPreset_def ambi_bin_setSofaFilePath_def
      binauraliser_setSofaFilePath_def ambi_bin_setUseDefaultHRIRsflag_def
      binauraliser_setUseDefaultHRIRsflag_def Let_def)


lemma for_cells_const_twice:
  "for_cells lo hi (\<lambda>i old. c) (for_cells lo hi (\<lambda>i old. c) a) = for_cells lo hi (\<lambda>i old. c) a"
  by (simp add: fun_eq_iff for_cells_apply)

lemma plain_setters_twice:
  "ambi_bin_setChOrder (ambi_bin_setChOrder pData v) v = ambi_bin_setChOrder pData v
   \<and> ambi_bin_setNormType (ambi_bin_setNormType pData v) v = ambi_bin_setNormType pData v
   \<and> ambi_bin_setDecEnableMaxrE (ambi_bin_setDecEnableMaxrE pData v) v = ambi_bin_setDecEnableMaxrE pData v
   \<and> ambi_bin_setEnableEQ (ambi_bin_setEnableEQ pData v) v = ambi_bin_setEnableEQ pData v
   \<and> ambi_bin_setFlipYaw (ambi_bin_setFlipYaw pData v) v = ambi_bin_setFlipYaw pData v
   \<and> ambi_bin_setFlipPitch (ambi_bin_setFlipPitch pData v) v = ambi_bin_setFlipPitch pData v
   \<and> ambi_bin_setFlipRoll (ambi_bin_setFlipRoll pData v) v = ambi_bin_setFlipRoll pData v
   \<and> ambi_bin_setYaw (ambi_bin_setYaw pData x) x = ambi_bin_setYaw pData x
   \<and> ambi_bin_setPitch (ambi_bin_setPitch pData x) x = ambi_bin_setPitch pData x
   \<and> ambi_bin_setRoll (ambi_bin_setRoll pData x) x = ambi_bin_setRoll pData x
   \<and> ambi_bin_refreshSettings (ambi_bin_refreshSettings pData) = ambi_bin_refreshSettings pData
   \<and> binauraliser_setRPYflag (binauraliser_setRPYflag bData v) v = binauraliser_setRPYflag bData v
   \<and> binauraliser_setInterpMode (binauraliser_setInterpMode bData v) v = binauraliser_setInterpMode bData v
   \<and> binauraliser_setFlipYaw (binauraliser_setFlipYaw bData v) v = binauraliser_setFlipYaw bData v
   \<and> binauraliser_setFlipPitch (binauraliser_setFlipPitch bData v) v = binauraliser_setFlipPitch bData v
   \<and> binauraliser_setFlipRoll (binauraliser_setFlipRoll bData v) v = binauraliser_setFlipRoll bData v
   \<and> binauraliser_setNumSources cfg (binauraliser_setNumSources cfg bData v) v = binauraliser_setNumSources cfg bData v
   \<and> binauraliser_setEnableRotation cfg (binauraliser_setEnableRotation cfg bData v) v = binauraliser_setEnableRotation cfg bData v
   \<and> binauraliser_setYaw (binauraliser_setYaw bData x) x = binauraliser_setYaw bData x
   \<and> binauraliser_setPitch (binauraliser_setPitch bData x) x = binauraliser_setPitch bData x
   \<and> binauraliser_setRoll (binauraliser_setRoll bData x) x = binauraliser_setRoll bData x
   \<and> binauraliser_setSourceAzi_deg (binauraliser_setSourceAzi_deg bData index x) index x = binauraliser_setSourceAzi_deg bData index x
   \<and> binauraliser_setSourceElev_deg (binauraliser_setSourceElev_deg bData index x) index x = binauraliser_setSourceElev_deg bData index x
   \<and> binauraliser_refreshSettings (binauraliser_refreshSettings bData) = binauraliser_refreshSettings bData"
  by (simp add: ambi_bin_setChOrder_def ambi_bin_setNormType_def ambi_bin_setDecEnableMaxrE_def
      ambi_bin_setEnableEQ_def ambi_bin_setFlipYaw_def ambi_bin_setFlipPitch_def
      ambi_bin_setFlipRoll_def ambi_bin_setYaw_def ambi_bin_setPitch_def ambi_bin_setRoll_def
      ambi_bin_refreshSettings_def binauraliser_setRPYflag_def binauraliser_setInterpMode_def
      binauraliser_setFlipYaw_def binauraliser_setFlipPitch_def binauraliser_setFlipRoll_def
      binauraliser_setNumSources_def binauraliser_setEnableRotation_def binauraliser_setYaw_def
      binauraliser_setPitch_def binauraliser_setRoll_def binauraliser_setSourceAzi_deg_def
      binauraliser_setSourceElev_deg_def binauraliser_refreshSettings_def Let_def
      for_cells_const_twice)

text \<open>
  C9. \<^verbatim>\<open>setUseDefaultHRIRsflag\<close> (both engines) and \<^verbatim>\<open>ambi_bin_setInputOrderPreset\<close>
  leave the whole engine state as the first call left it when called again with the
  same argument, and so do the setters of the orientation, the flips, the source
  directions and count, and the plain option setters of both engines. A second \<^verbatim>\<open>setSofaFilePath\<close> with the same path leaves the path the
  getter returns, both flags and every field other than the path pointer and the heap as
  the first call left them. \<^verbatim>\<open>setInputOrderPreset\<close> with another preset, and every
  \<^verbatim>\<open>setSofaFilePath\<close>, request the codec (HRTF) reinit; \<^verbatim>\<open>setUseDefaultHRIRsflag\<close>
  requests it only when the flag is 0 and the argument is not, and changes nothing
  otherwise.
\<close>

theorem setters_idempotent:
  "ambi_bin_setUseDefaultHRIRsflag (ambi_bin_setUseDefaultHRIRsflag pData v) v
     = ambi_bin_setUseDefaultHRIRsflag pData v
   \<and> binauraliser_setUseDefaultHRIRsflag (binauraliser_setUseDefaultHRIRsflag bData v) v
     = binauraliser_setUseDefaultHRIRsflag bData v
   \<and> ambi_bin_setInputOrderPreset (ambi_bin_setInputOrderPreset pData preset) preset
     = ambi_bin_setInputOrderPreset pData preset
   \<and> ambi_bin_setChOrder (ambi_bin_setChOrder pData v) v = ambi_bin_setChOrder pData v
   \<and> ambi_bin_setNormType (ambi_bin_setNormType pData v) v = ambi_bin_setNormType pData v
   \<and> ambi_bin_setDecEnableMaxrE (ambi_bin_setDecEnableMaxrE pData v) v = ambi_bin_setDecEnableMaxrE pData v
   \<and> ambi_bin_setEnableEQ (ambi_bin_setEnableEQ pData v) v = ambi_bin_setEnableEQ pData v
   \<and> ambi_bin_setFlipYaw (ambi_bin_setFlipYaw pData v) v = ambi_bin_setFlipYaw pData v
   \<and> ambi_bin_setFlipPitch (ambi_bin_setFlipPitch pData v) v = ambi_bin_setFlipPitch pData v
   \<and> ambi_bin_setFlipRoll (ambi_bin_setFlipRoll pData v) v = ambi_bin_setFlipRoll pData v
   \<and> ambi_bin_setYaw (ambi_bin_setYaw pData x) x = ambi_bin_setYaw pData x
   \<and> ambi_bin_setPitch (ambi_bin_setPitch pData x) x = ambi_bin_setPitch pData x
   \<and> ambi_bin_setRoll (ambi_bin_setRoll pData x) x = ambi_bin_setRoll pData x
   \<and> ambi_bin_refreshSettings (ambi_bin_refreshSettings pData) = ambi_bin_refreshSettings pData
   \<and> binauraliser_setRPYflag (binauraliser_setRPYflag bData v) v = binauraliser_setRPYflag bData v
   \<and> binauraliser_setInterpMode (binauraliser_setInterpMode bData v) v = binauraliser_setInterpMode bData v
   \<and> binauraliser_setFlipYaw (binauraliser_setFlipYaw bData v) v = binauraliser_setFlipYaw bData v
   \<and> binauraliser_setFlipPitch (binauraliser_setFlipPitch bData v) v = binauraliser_setFlipPitch bData v
   \<and> binauraliser_setFlipRoll (binauraliser_setFlipRoll bData v) v = binauraliser_setFlipRoll bData v
   \<and> binauraliser_setNumSources cfg (binauraliser_setNumSources cfg bData v) v = binauraliser_setNumSources cfg bData v
   \<and> binauraliser_setEnableRotation cfg (binauraliser_setEnableRotation cfg bData v) v = binauraliser_setEnableRotation cfg bData v
   \<and> binauraliser_setYaw (binauraliser_setYaw bData x) x = binauraliser_setYaw bData x
   \<and> binauraliser_setPitch (binauraliser_setPitch bData x) x = binauraliser_setPitch bData x
   \<and> binauraliser_setRoll (binauraliser_setRoll bData x) x = binauraliser_setRoll bData x
   \<and> binauraliser_setSourceAzi_deg (binauraliser_setSourceAzi_deg bData index x) index x = binauraliser_setSourceAzi_deg bData index x
   \<and> binauraliser_setSourceElev_deg (binauraliser_setSourceElev_deg bData index x) index x = binauraliser_setSourceElev_deg bData index x
   \<and> binauraliser_refreshSettings (binauraliser_refreshSettings bData) = binauraliser_refreshSettings bData
   \<and> ambi_bin_getSofaFilePath (ambi_bin_setSofaFilePath (ambi_bin_setSofaFilePath pData path) path)
     = ambi_bin_getSofaFilePath (ambi_bin_setSofaFilePath pData path)
   \<and> ambi_bin_getSofaFilePath (ambi_bin_setSofaFilePath pData path) = path
   \<and> (ambi_bin_setSofaFilePath (ambi_bin_setSofaFilePath pData path) path)
        \<lparr>strings := strings (ambi_bin_setSofaFilePath pData path),
         pars := (pars (ambi_bin_setSofaFilePath (ambi_bin_setSofaFilePath pData path) path))
            \<lparr>sofa_filepath := sofa_filepath (pars (ambi_bin_setSofaFilePath pData path))\<rparr>\<rparr>
       = ambi_bin_setSofaFilePath pData path
   \<and> binauraliser_getSofaFilePath
        (binauraliser_setSofaFilePath (binauraliser_setSofaFilePath bData path) path)
     = binauraliser_getSofaFilePath (binauraliser_setSofaFilePath bData path)
   \<and> binauraliser_getSofaFilePath (binauraliser_setSofaFilePath bData path) = path
   \<and> (binauraliser_setSofaFilePath (binauraliser_setSofaFilePath bData path) path)
        \<lparr>b_strings := b_strings (binauraliser_setSofaFilePath bData path),
         b_sofa_filepath := b_sofa_filepath (binauraliser_setSofaFilePath bData path)\<rparr>
       = binauraliser_setSofaFilePath bData path
   \<and> (orderSelected pData \<noteq> preset \<longrightarrow>
       reInitCodec (ambi_bin_setInputOrderPreset pData preset) = 1
     \<and> order (ambi_bin_setInputOrderPreset pData preset) = order_of_preset preset
     \<and> ((order_of_preset preset + 1) * (order_of_preset preset + 1) \<noteq> nSH pData \<longrightarrow>
          reInitTFT (ambi_bin_setInputOrderPreset pData preset) = 1))
   \<and> (orderSelected pData = preset \<longrightarrow> ambi_bin_setInputOrderPreset pData preset = pData)
   \<and> reInitCodec (ambi_bin_setSofaFilePath pData path) = 1
   \<and> useDefaultHRIRsFLAG (ambi_bin_setSofaFilePath pData path) = 0
   \<and> reInitHRTFsAndGainTables (binauraliser_setSofaFilePath bData path) = 1
   \<and> b_useDefaultHRIRsFLAG (binauraliser_setSofaFilePath bData path) = 0
   \<and> (useDefaultHRIRsFLAG pData = 0 \<and> v \<noteq> 0 \<longrightarrow>
        reInitCodec (ambi_bin_setUseDefaultHRIRsflag pData v) = 1
      \<and> useDefaultHRIRsFLAG (ambi_bin_setUseDefaultHRIRsflag pData v) = v)
   \<and> (useDefaultHRIRsFLAG pData \<noteq> 0 \<or> v = 0 \<longrightarrow> ambi_bin_setUseDefaultHRIRsflag pData v = pData)
   \<and> (b_useDefaultHRIRsFLAG bData = 0 \<and> v \<noteq> 0 \<longrightarrow>
        reInitHRTFsAndGainTables (binauraliser_setUseDefaultHRIRsflag bData v) = 1
      \<and> b_useDefaultHRIRsFLAG (binauraliser_setUseDefaultHRIRsflag bData v) = v)
   \<and> (b_useDefaultHRIRsFLAG bData \<noteq> 0 \<or> v = 0 \<longrightarrow>
        binauraliser_setUseDefaultHRIRsflag bData v = bData)"
  using ambi_bin_setUseDefaultHRIRsflag_twice [of pData v]
    binauraliser_setUseDefaultHRIRsflag_twice [of bData v]
    ambi_bin_setInputOrderPreset_twice [of pData preset]
    ambi_bin_setSofaFilePath_twice [of pData path]
    binauraliser_setSofaFilePath_twice [of bData path]
    setters_flags [of pData preset path bData v]
    plain_setters_twice [of pData v x bData cfg index]
  by simp

theorem setters_idempotent_witness:
  "reInitCodec (ambi_bin_setInputOrderPreset example_ambi INPUT_ORDER_THIRD) = 1
   \<and> order (ambi_bin_setInputOrderPreset example_ambi INPUT_ORDER_THIRD) = 3
   \<and> reInitTFT (ambi_bin_setInputOrderPreset example_ambi INPUT_ORDER_THIRD) = 1
   \<and> ambi_bin_setInputOrderPreset example_ambi INPUT_OMNI = example_ambi
   \<and> reInitCodec (ambi_bin_setUseDefaultHRIRsflag (example_ambi\<lparr>useDefaultHRIRsFLAG := 0\<rparr>) 1) = 1
   \<and> binauraliser_setUseDefaultHRIRsflag example_bin 1 = example_bin
   \<and> reInitHRTFsAndGainTables
        (binauraliser_setUseDefaultHRIRsflag (example_bin\<lparr>b_useDefaultHRIRsFLAG := 0\<rparr>) 1) = 1"
  using setters_idempotent [of example_ambi 1 example_bin INPUT_ORDER_THIRD _ _ _ "''a.sofa''"]
    setters_idempotent [of example_ambi 1 example_bin INPUT_OMNI _ _ _ "''a.sofa''"]
    setters_idempotent [of "example_ambi\<lparr>useDefaultHRIRsFLAG := 0\<rparr>" 1
      "example_bin\<lparr>b_useDefaultHRIRsFLAG := 0\<rparr>" INPUT_OMNI _ _ _ "''a.sofa''"]
  by (simp add: example_ambi_def example_bin_def)

text \<open>
  With the default HRIRs in use (flag 1), \<^verbatim>\<open>ambi_bin_setUseDefaultHRIRsflag\<close> called
  with the different value 0 changes nothing: the flag stays 1 and no reinit is requested.
\<close>

theorem setters_idempotent_counterexample:
  "useDefaultHRIRsFLAG example_ambi = 1
   \<and> reInitCodec example_ambi = 0
   \<and> useDefaultHRIRsFLAG (ambi_bin_setUseDefaultHRIRsflag example_ambi 0) = 1
   \<and> reInitCodec (ambi_bin_setUseDefaultHRIRsflag example_ambi 0) = 0
   \<and> reInitTFT (ambi_bin_setUseDefaultHRIRsflag example_ambi 0) = 0"
  by (simp add: example_ambi_def ambi_bin_setUseDefaultHRIRsflag_def)

section \<open>Pending reinitialisations\<close>

lemma ambi_bin_process_reinit_cases:
  assumes "\<forall>x. reInitCodec (ambi_bin_initTFT ext x) = reInitCodec x"
  shows "(reInitTFT s = 1 \<and> reInitCodec s = 1 \<longrightarrow>
            ambi_bin_process_reinit ext s =
              (ambi_bin_initCodec ext
                 ((ambi_bin_initTFT ext (s\<lparr>reInitTFT := 2\<rparr>))\<lparr>reInitTFT := 0, reInitCodec := 2\<rparr>))
              \<lparr>reInitCodec := 0\<rparr>)
       \<and> (reInitTFT s = 1 \<and> reInitCodec s \<noteq> 1 \<longrightarrow>
            ambi_bin_process_reinit ext s = (ambi_bin_initTFT ext (s\<lparr>reInitTFT := 2\<rparr>))\<lparr>reInitTFT := 0\<rparr>)
       \<and> (reInitTFT s \<noteq> 1 \<and> reInitCodec s = 1 \<longrightarrow>
            ambi_bin_process_reinit ext s = (ambi_bin_initCodec ext (s\<lparr>reInitCodec := 2\<rparr>))\<lparr>reInitCodec := 0\<rparr>)
       \<and> (reInitTFT s \<noteq> 1 \<and> reInitCodec s \<noteq> 1 \<longrightarrow> ambi_bin_process_reinit ext s = s)"
  using assms by (simp add: ambi_bin_process_reinit_def Let_def)

lemma binauraliser_checkReInit_cases:
  assumes "\<forall>x. reInitHRTFsAndGainTables (binauraliser_initTFT bext x) = reInitHRTFsAndGainTables x"
  shows "(b_reInitTFT b = 1 \<and> reInitHRTFsAndGainTables b = 1 \<longrightarrow>
            binauraliser_checkReInit bext b =
              (binauraliser_initHRTFsAndGainTables bext
                 ((binauraliser_initTFT bext (b\<lparr>b_reInitTFT := 2\<rparr>))
                    \<lparr>b_reInitTFT := 0, reInitHRTFsAndGainTables := 2\<rparr>))
              \<lparr>reInitHRTFsAndGainTables := 0\<rparr>)
       \<and> (b_reInitTFT b = 1 \<and> reInitHRTFsAndGainTables b \<noteq> 1 \<longrightarrow>
            binauraliser_checkReInit bext b =
              (binauraliser_initTFT bext (b\<lparr>b_reInitTFT := 2\<rparr>))\<lparr>b_reInitTFT := 0\<rparr>)
       \<and> (b_reInitTFT b \<noteq> 1 \<and> reInitHRTFsAndGainTables b = 1 \<longrightarrow>
            binauraliser_checkReInit bext b =
              (binauraliser_initHRTFsAndGainTables bext (b\<lparr>reInitHRTFsAndGainTables := 2\<rparr>))
              \<lparr>reInitHRTFsAndGainTables := 0\<rparr>)
       \<and> (b_reInitTFT b \<noteq> 1 \<and> reInitHRTFsAndGainTables b \<noteq> 1 \<longrightarrow>
            binauraliser_checkReInit bext b = b)"
  using assms by (simp add: binauraliser_checkReInit_def binauraliser_reinit_TFT_def Let_def)

lemma binauraliser_reinit_TFT_cases:
  assumes "\<forall>x. reInitHRTFsAndGainTables (binauraliser_initTFT bext x) = reInitHRTFsAndGainTables x"
  shows "(b_reInitTFT b = 1 \<longrightarrow>
            binauraliser_reinit_TFT bext b =
              (binauraliser_initTFT bext (b\<lparr>b_reInitTFT := 2\<rparr>))\<lparr>b_reInitTFT := 0\<rparr>)
       \<and> (b_reInitTFT b \<noteq> 1 \<longrightarrow> binauraliser_reinit_TFT bext b = b)
       \<and> reInitHRTFsAndGainTables (binauraliser_reinit_TFT bext b) = reInitHRTFsAndGainTables b"
  using assms by (simp add: binauraliser_reinit_TFT_def)

text \<open>
  C3. Provided the filterbank rebuild leaves the codec (HRTF) flag alone, the rebuild
  block of \<^verbatim>\<open>ambi_bin_process\<close> and \<^verbatim>\<open>binauraliser_checkReInit\<close> take every flag
  that is requested (1) to in-progress (2), run its rebuild on that state, and set the
  flag to clean (0): the filterbank's first, the codec's on the state the filterbank's
  left; a flag that is not requested is left alone, with no rebuild.
  \<^verbatim>\<open>ambi_bin_process\<close> runs this block before its guard and its signal processing, on
  every call. \<^verbatim>\<open>binauraliser_process\<close> runs \<^verbatim>\<open>binauraliser_checkReInit\<close> on
  \<^verbatim>\<open>__APPLE__\<close> builds; on other builds it handles the filterbank flag alone and
  leaves the HRTF flag as it is.
\<close>

theorem reinit_drain:
  "(\<forall>x. reInitCodec (ambi_bin_initTFT ext x) = reInitCodec x)
   \<and> (\<forall>x. reInitHRTFsAndGainTables (binauraliser_initTFT bext x) = reInitHRTFsAndGainTables x)
   \<longrightarrow>
     (reInitTFT s = 1 \<and> reInitCodec s = 1 \<longrightarrow>
        ambi_bin_process_reinit ext s =
          (ambi_bin_initCodec ext
             ((ambi_bin_initTFT ext (s\<lparr>reInitTFT := 2\<rparr>))\<lparr>reInitTFT := 0, reInitCodec := 2\<rparr>))
          \<lparr>reInitCodec := 0\<rparr>)
   \<and> (reInitTFT s = 1 \<and> reInitCodec s \<noteq> 1 \<longrightarrow>
        ambi_bin_process_reinit ext s = (ambi_bin_initTFT ext (s\<lparr>reInitTFT := 2\<rparr>))\<lparr>reInitTFT := 0\<rparr>)
   \<and> (reInitTFT s \<noteq> 1 \<and> reInitCodec s = 1 \<longrightarrow>
        ambi_bin_process_reinit ext s = (ambi_bin_initCodec ext (s\<lparr>reInitCodec := 2\<rparr>))\<lparr>reInitCodec := 0\<rparr>)
   \<and> (reInitTFT s \<noteq> 1 \<and> reInitCodec s \<noteq> 1 \<longrightarrow> ambi_bin_process_reinit ext s = s)
   \<and> ambi_bin_process cfg ext s inputs outputs nInputs nOutputs nSamples isPlaying =
        (if nSamples = int (FRAME_SIZE cfg) \<and> isPlaying \<noteq> 0
            \<and> reInitCodec (ambi_bin_process_reinit ext s) = 0
            \<and> reInitTFT (ambi_bin_process_reinit ext s) = 0
         then ambi_bin_process_block cfg ext (reInitTFT s \<noteq> 0 \<or> reInitCodec s \<noteq> 0)
                (ambi_bin_process_reinit ext s) inputs outputs nInputs nOutputs
         else (ambi_bin_process_reinit ext s, silence cfg nOutputs outputs))
   \<and> (b_reInitTFT b = 1 \<and> reInitHRTFsAndGainTables b = 1 \<longrightarrow>
        binauraliser_checkReInit bext b =
          (binauraliser_initHRTFsAndGainTables bext
             ((binauraliser_initTFT bext (b\<lparr>b_reInitTFT := 2\<rparr>))
                \<lparr>b_reInitTFT := 0, reInitHRTFsAndGainTables := 2\<rparr>))
          \<lparr>reInitHRTFsAndGainTables := 0\<rparr>)
   \<and> (b_reInitTFT b = 1 \<and> reInitHRTFsAndGainTables b \<noteq> 1 \<longrightarrow>
        binauraliser_checkReInit bext b =
          (binauraliser_initTFT bext (b\<lparr>b_reInitTFT := 2\<rparr>))\<lparr>b_reInitTFT := 0\<rparr>)
   \<and> (b_reInitTFT b \<noteq> 1 \<and> reInitHRTFsAndGainTables b = 1 \<longrightarrow>
        binauraliser_checkReInit bext b =
          (binauraliser_initHRTFsAndGainTables bext (b\<lparr>reInitHRTFsAndGainTables := 2\<rparr>))
          \<lparr>reInitHRTFsAndGainTables := 0\<rparr>)
   \<and> (b_reInitTFT b \<noteq> 1 \<and> reInitHRTFsAndGainTables b \<noteq> 1 \<longrightarrow>
        binauraliser_checkReInit bext b = b)
   \<and> (APPLE cfg \<longrightarrow> binauraliser_process_reinit cfg bext b = binauraliser_checkReInit bext b)
   \<and> (\<not> APPLE cfg \<and> b_reInitTFT b = 1 \<longrightarrow>
        binauraliser_process_reinit cfg bext b =
          (binauraliser_initTFT bext (b\<lparr>b_reInitTFT := 2\<rparr>))\<lparr>b_reInitTFT := 0\<rparr>)
   \<and> (\<not> APPLE cfg \<and> b_reInitTFT b \<noteq> 1 \<longrightarrow> binauraliser_process_reinit cfg bext b = b)
   \<and> (\<not> APPLE cfg \<longrightarrow>
        reInitHRTFsAndGainTables (binauraliser_process_reinit cfg bext b) = reInitHRTFsAndGainTables b)
   \<and> binauraliser_process cfg bext b binputs boutputs nInputs nOutputs nSamples isPlaying =
        (if nSamples = int (FRAME_SIZE cfg)
            \<and> hrtf_fb (binauraliser_process_reinit cfg bext b) \<noteq> None
            \<and> b_reInitTFT (binauraliser_process_reinit cfg bext b) = 0
            \<and> reInitHRTFsAndGainTables (binauraliser_process_reinit cfg bext b) = 0
         then binauraliser_process_block cfg bext (binauraliser_process_reinit cfg bext b)
                binputs boutputs nInputs nOutputs isPlaying
         else (binauraliser_process_reinit cfg bext b, silence cfg nOutputs boutputs))"
  (is "?frame \<longrightarrow> ?drain")
proof (intro impI)
  assume fr: ?frame
  then have f1: "\<forall>x. reInitCodec (ambi_bin_initTFT ext x) = reInitCodec x"
    and f2: "\<forall>x. reInitHRTFsAndGainTables (binauraliser_initTFT bext x) = reInitHRTFsAndGainTables x"
    by blast+
  have pa: "ambi_bin_process cfg ext s inputs outputs nInputs nOutputs nSamples isPlaying =
        (if nSamples = int (FRAME_SIZE cfg) \<and> isPlaying \<noteq> 0
            \<and> reInitCodec (ambi_bin_process_reinit ext s) = 0
            \<and> reInitTFT (ambi_bin_process_reinit ext s) = 0
         then ambi_bin_process_block cfg ext (reInitTFT s \<noteq> 0 \<or> reInitCodec s \<noteq> 0)
                (ambi_bin_process_reinit ext s) inputs outputs nInputs nOutputs
         else (ambi_bin_process_reinit ext s, silence cfg nOutputs outputs))"
    by (simp add: ambi_bin_process_def Let_def)
  have pb: "binauraliser_process cfg bext b binputs boutputs nInputs nOutputs nSamples isPlaying =
        (if nSamples = int (FRAME_SIZE cfg)
            \<and> hrtf_fb (binauraliser_process_reinit cfg bext b) \<noteq> None
            \<and> b_reInitTFT (binauraliser_process_reinit cfg bext b) = 0
            \<and> reInitHRTFsAndGainTables (binauraliser_process_reinit cfg bext b) = 0
         then binauraliser_process_block cfg bext (binauraliser_process_reinit cfg bext b)
                binputs boutputs nInputs nOutputs isPlaying
         else (binauraliser_process_reinit cfg bext b, silence cfg nOutputs boutputs))"
    by (simp add: binauraliser_process_def Let_def)
  have pr: "(APPLE cfg \<longrightarrow> binauraliser_process_reinit cfg bext b = binauraliser_checkReInit bext b)
     \<and> (\<not> APPLE cfg \<longrightarrow> binauraliser_process_reinit cfg bext b = binauraliser_reinit_TFT bext b)"
    by (simp add: binauraliser_process_reinit_def)
  show ?drain
    using ambi_bin_process_reinit_cases [OF f1, of s]
      binauraliser_checkReInit_cases [OF f2, of b]
      binauraliser_reinit_TFT_cases [OF f2, of b] pr
    by (intro conjI) (simp_all only: pa [symmetric] pb [symmetric], simp_all)
qed


theorem reinit_drain_witness:
  "reInitTFT (ambi_bin_refreshSettings example_ambi) = 1
   \<and> reInitCodec (ambi_bin_refreshSettings example_ambi) = 1
   \<and> reInitTFT (ambi_bin_process_reinit example_ambi_ext (ambi_bin_refreshSettings example_ambi)) = 0
   \<and> reInitCodec (ambi_bin_process_reinit example_ambi_ext (ambi_bin_refreshSettings example_ambi)) = 0
   \<and> b_reInitTFT (binauraliser_checkReInit example_bin_ext (binauraliser_refreshSettings example_bin)) = 0
   \<and> reInitHRTFsAndGainTables
        (binauraliser_checkReInit example_bin_ext (binauraliser_refreshSettings example_bin)) = 0
   \<and> b_reInitTFT (binauraliser_process_reinit example_cfg example_bin_ext
        (binauraliser_refreshSettings example_bin)) = 0"
  using reinit_drain [where ext = example_ambi_ext and bext = example_bin_ext
      and s = "ambi_bin_refreshSettings example_ambi" and b = "binauraliser_refreshSettings example_bin"
      and cfg = example_cfg and inputs = "\<lambda>ch k. Fin 0" and outputs = "\<lambda>ch k. Fin 0"
      and binputs = "\<lambda>ch k. Fin 0" and boutputs = "\<lambda>ch k. Fin 0"
      and nInputs = 1 and nOutputs = 2 and nSamples = 4 and isPlaying = 1]
  by (simp add: example_defs ambi_bin_refreshSettings_def binauraliser_refreshSettings_def)

text \<open>
  On a build without \<^verbatim>\<open>__APPLE__\<close>, \<^verbatim>\<open>binauraliser_process\<close> leaves a requested HRTF
  reinit requested: the flag is still 1 after the call.
\<close>

theorem reinit_drain_counterexample:
  "\<not> APPLE example_cfg
   \<and> reInitHRTFsAndGainTables (example_bin\<lparr>reInitHRTFsAndGainTables := 1\<rparr>) = 1
   \<and> reInitHRTFsAndGainTables
        (fst (binauraliser_process example_cfg example_bin_ext
                (example_bin\<lparr>reInitHRTFsAndGainTables := 1\<rparr>)
                (\<lambda>ch k. Fin 0) (\<lambda>ch k. Fin 0) 1 2 4 1)) = 1"
  by (simp add: example_defs binauraliser_process_def binauraliser_process_reinit_def
      binauraliser_reinit_TFT_def)

section \<open>The decoder's mixing matrix and crossfade\<close>


lemma ambi_bin_mixing_matrix_apply:
  "ambi_bin_mixing_matrix cfg ord nSH1 Mdec M_rot cur band ear ch =
     (if band < HYBRID_BANDS cfg \<and> ear < NUM_EARS cfg \<and> ch < nSH1
      then (if 0 < ord then cdot nSH1 (Mdec band ear) (\<lambda>l. M_rot l ch) else Mdec band ear ch)
      else cur band ear ch)"
  by (simp add: ambi_bin_mixing_matrix_def for_cells_apply cblas_cgemm_apply memcpy_n_apply)





lemma ambi_bin_process_block_fields:
  "current_M (fst (ambi_bin_process_block cfg ext fade pData inputs outputs nInputs nOutputs)) =
     ambi_bin_mixing_matrix cfg (order pData) (nat ((order pData + 1) * (order pData + 1)))
       (M_dec (pars pData))
       (ambi_bin_M_rot ext (order pData) (nat ((order pData + 1) * (order pData + 1)))
          (yaw pData) (pitch pData) (roll pData))
       (current_M pData)"
  "binframeTF (fst (ambi_bin_process_block cfg ext fade pData inputs outputs nInputs nOutputs)) =
     snd (ambi_bin_mix cfg (nat ((order pData + 1) * (order pData + 1))) (prev_M pData)
       (current_M (fst (ambi_bin_process_block cfg ext fade pData inputs outputs nInputs nOutputs)))
       (prev_SHframeTF pData) (interpolator pData) (\<lambda>i j. czero, binframeTF pData))"
  "prev_SHframeTF (fst (ambi_bin_process_block cfg ext fade pData inputs outputs nInputs nOutputs)) =
     ambi_bin_keep_SHframeTF cfg (nat ((order pData + 1) * (order pData + 1)))
       (SHframeTF (fst (ambi_bin_process_block cfg ext fade pData inputs outputs nInputs nOutputs)))
       (prev_SHframeTF pData)"
  "prev_M (fst (ambi_bin_process_block cfg ext fade pData inputs outputs nInputs nOutputs)) =
     ambi_bin_keep_M cfg (nat ((order pData + 1) * (order pData + 1)))
       (current_M (fst (ambi_bin_process_block cfg ext fade pData inputs outputs nInputs nOutputs)))
       (prev_M pData)"
  "SHframeTF (fst (ambi_bin_process_block cfg ext fade pData inputs outputs nInputs nOutputs)) =
     ambi_bin_fill_SHframeTF cfg (nat ((order pData + 1) * (order pData + 1)))
       (STFTInputFrameTF (fst (ambi_bin_process_block cfg ext fade pData inputs outputs nInputs nOutputs)))
       (SHframeTF pData)"
  "interpolator (fst (ambi_bin_process_block cfg ext fade pData inputs outputs nInputs nOutputs)) =
     interpolator pData"
  by (simp_all add: ambi_bin_process_block_def Let_def)

lemma ambi_bin_process_block_orientation:
  "order pData = 0 \<Longrightarrow>
   ambi_bin_process_block cfg ext fade (pData\<lparr>yaw := y, pitch := p, roll := r\<rparr>)
       inputs outputs nInputs nOutputs =
     ((fst (ambi_bin_process_block cfg ext fade pData inputs outputs nInputs nOutputs))
        \<lparr>yaw := y, pitch := p, roll := r\<rparr>,
      snd (ambi_bin_process_block cfg ext fade pData inputs outputs nInputs nOutputs))"
  by (auto simp: ambi_bin_process_block_def Let_def ambi_bin_M_rot_def)

lemma ambi_bin_process_orientation:
  assumes "order s = 0" "reInitTFT s \<noteq> 1" "reInitCodec s \<noteq> 1"
  shows "ambi_bin_process cfg ext (s\<lparr>yaw := y, pitch := p, roll := r\<rparr>)
             inputs outputs nInputs nOutputs nSamples isPlaying =
           ((fst (ambi_bin_process cfg ext s inputs outputs nInputs nOutputs nSamples isPlaying))
              \<lparr>yaw := y, pitch := p, roll := r\<rparr>,
            snd (ambi_bin_process cfg ext s inputs outputs nInputs nOutputs nSamples isPlaying))"
  using assms
  by (simp add: ambi_bin_process_def ambi_bin_process_reinit_def Let_def
      ambi_bin_process_block_orientation)


lemma ambi_bin_process_reinit_orientation:
  assumes T: "\<forall>x y p r. ambi_bin_initTFT ext (x\<lparr>yaw := y, pitch := p, roll := r\<rparr>)
                       = (ambi_bin_initTFT ext x)\<lparr>yaw := y, pitch := p, roll := r\<rparr>"
    and C: "\<forall>x y p r. ambi_bin_initCodec ext (x\<lparr>yaw := y, pitch := p, roll := r\<rparr>)
                       = (ambi_bin_initCodec ext x)\<lparr>yaw := y, pitch := p, roll := r\<rparr>"
  shows "ambi_bin_process_reinit ext (s\<lparr>yaw := y, pitch := p, roll := r\<rparr>)
           = (ambi_bin_process_reinit ext s)\<lparr>yaw := y, pitch := p, roll := r\<rparr>"
proof -
  define u :: "'a ambi_bin_data \<Rightarrow> 'a ambi_bin_data"
    where "u = (\<lambda>x. x\<lparr>yaw := y, pitch := p, roll := r\<rparr>)"
  define stepT :: "'a ambi_bin_data \<Rightarrow> 'a ambi_bin_data"
    where "stepT = (\<lambda>x. if reInitTFT x = 1
                then (ambi_bin_initTFT ext (x\<lparr>reInitTFT := 2\<rparr>))\<lparr>reInitTFT := 0\<rparr> else x)"
  define stepC :: "'a ambi_bin_data \<Rightarrow> 'a ambi_bin_data"
    where "stepC = (\<lambda>x. if reInitCodec x = 1
                then (ambi_bin_initCodec ext (x\<lparr>reInitCodec := 2\<rparr>))\<lparr>reInitCodec := 0\<rparr> else x)"
  have re: "ambi_bin_process_reinit ext x = stepC (stepT x)" for x
    by (simp add: ambi_bin_process_reinit_def stepT_def stepC_def Let_def)
  have uT: "ambi_bin_initTFT ext (u x) = u (ambi_bin_initTFT ext x)" for x
    using T by (simp add: u_def)
  have uC: "ambi_bin_initCodec ext (u x) = u (ambi_bin_initCodec ext x)" for x
    using C by (simp add: u_def)
  have fl: "reInitTFT (u x) = reInitTFT x" "reInitCodec (u x) = reInitCodec x"
    "(u x)\<lparr>reInitTFT := v\<rparr> = u (x\<lparr>reInitTFT := v\<rparr>)"
    "(u x)\<lparr>reInitCodec := v\<rparr> = u (x\<lparr>reInitCodec := v\<rparr>)" for x v
    by (simp_all add: u_def)
  have sT: "stepT (u x) = u (stepT x)" for x
    by (simp only: stepT_def fl uT if_distrib [of u])
  have sC: "stepC (u x) = u (stepC x)" for x
    by (simp only: stepC_def fl uC if_distrib [of u])
  have "ambi_bin_process_reinit ext (u s) = u (ambi_bin_process_reinit ext s)"
    by (simp only: re sT sC)
  then show ?thesis by (simp add: u_def)
qed

lemma ambi_bin_process_orientation_rebuilt:
  assumes "\<forall>x y p r. ambi_bin_initTFT ext (x\<lparr>yaw := y, pitch := p, roll := r\<rparr>)
                       = (ambi_bin_initTFT ext x)\<lparr>yaw := y, pitch := p, roll := r\<rparr>"
    and "\<forall>x y p r. ambi_bin_initCodec ext (x\<lparr>yaw := y, pitch := p, roll := r\<rparr>)
                       = (ambi_bin_initCodec ext x)\<lparr>yaw := y, pitch := p, roll := r\<rparr>"
    and "order (ambi_bin_process_reinit ext s) = 0"
  shows "ambi_bin_process cfg ext (s\<lparr>yaw := y, pitch := p, roll := r\<rparr>)
             inputs outputs nInputs nOutputs nSamples isPlaying =
           ((fst (ambi_bin_process cfg ext s inputs outputs nInputs nOutputs nSamples isPlaying))
              \<lparr>yaw := y, pitch := p, roll := r\<rparr>,
            snd (ambi_bin_process cfg ext s inputs outputs nInputs nOutputs nSamples isPlaying))"
  using assms(3)
  by (simp add: ambi_bin_process_def Let_def
      ambi_bin_process_reinit_orientation [OF assms(1,2)] ambi_bin_process_block_orientation)

text \<open>
  C4. In a processed block with \<^verbatim>\<open>order = 0\<close> (one spherical-harmonic channel), the
  current mixing matrix of every band is the decode matrix \<^verbatim>\<open>M_dec\<close> of that band, with
  no rotation applied. Changing yaw, pitch and roll changes nothing of what
  \<^verbatim>\<open>ambi_bin_process\<close> returns but these three fields: the mixing matrices, every
  other field and the output are the same. This holds when no reinit is requested, and
  with a reinit whenever the two rebuilds neither read nor write the orientation.
\<close>

theorem order_zero_mixing_matrix:
  "nSamples = int (FRAME_SIZE cfg) \<and> isPlaying \<noteq> 0
   \<and> reInitCodec (ambi_bin_process_reinit ext s) = 0
   \<and> reInitTFT (ambi_bin_process_reinit ext s) = 0
   \<and> order (ambi_bin_process_reinit ext s) = 0
   \<longrightarrow>
     (\<forall>band ear. band < HYBRID_BANDS cfg \<and> ear < NUM_EARS cfg \<longrightarrow>
        current_M (fst (ambi_bin_process cfg ext s inputs outputs nInputs nOutputs nSamples isPlaying))
          band ear 0
        = M_dec (pars (ambi_bin_process_reinit ext s)) band ear 0)
   \<and> ((reInitTFT s \<noteq> 1 \<and> reInitCodec s \<noteq> 1)
        \<or> ((\<forall>x y p r. ambi_bin_initTFT ext (x\<lparr>yaw := y, pitch := p, roll := r\<rparr>)
                       = (ambi_bin_initTFT ext x)\<lparr>yaw := y, pitch := p, roll := r\<rparr>)
           \<and> (\<forall>x y p r. ambi_bin_initCodec ext (x\<lparr>yaw := y, pitch := p, roll := r\<rparr>)
                       = (ambi_bin_initCodec ext x)\<lparr>yaw := y, pitch := p, roll := r\<rparr>))
      \<longrightarrow>
        ambi_bin_process cfg ext (s\<lparr>yaw := y, pitch := p, roll := r\<rparr>)
            inputs outputs nInputs nOutputs nSamples isPlaying =
          ((fst (ambi_bin_process cfg ext s inputs outputs nInputs nOutputs nSamples isPlaying))
             \<lparr>yaw := y, pitch := p, roll := r\<rparr>,
           snd (ambi_bin_process cfg ext s inputs outputs nInputs nOutputs nSamples isPlaying)))"
  (is "?guard \<longrightarrow> ?matrix \<and> (?quiet \<or> ?frame \<longrightarrow> ?same)")
proof (intro impI)
  assume g: ?guard
  then have pr: "ambi_bin_process cfg ext s inputs outputs nInputs nOutputs nSamples isPlaying =
      ambi_bin_process_block cfg ext (reInitTFT s \<noteq> 0 \<or> reInitCodec s \<noteq> 0)
        (ambi_bin_process_reinit ext s) inputs outputs nInputs nOutputs"
    by (simp add: ambi_bin_process_def Let_def)
  have m: ?matrix
    unfolding pr using g
    by (simp add: ambi_bin_process_block_fields ambi_bin_mixing_matrix_apply)
  have i: "?quiet \<or> ?frame \<longrightarrow> ?same"
  proof (intro impI)
    assume "?quiet \<or> ?frame"
    then show ?same
    proof
      assume n: ?quiet
      then have "ambi_bin_process_reinit ext s = s"
        by (simp add: ambi_bin_process_reinit_def)
      with g have "order s = 0" by simp
      with n show ?same
        by (simp add: ambi_bin_process_orientation)
    next
      assume f: ?frame
      from g have o: "order (ambi_bin_process_reinit ext s) = 0" by simp
      from f have T: "\<forall>x y p r. ambi_bin_initTFT ext (x\<lparr>yaw := y, pitch := p, roll := r\<rparr>)
                       = (ambi_bin_initTFT ext x)\<lparr>yaw := y, pitch := p, roll := r\<rparr>"
        and C: "\<forall>x y p r. ambi_bin_initCodec ext (x\<lparr>yaw := y, pitch := p, roll := r\<rparr>)
                       = (ambi_bin_initCodec ext x)\<lparr>yaw := y, pitch := p, roll := r\<rparr>"
        by blast+
      show ?same
        by (rule ambi_bin_process_orientation_rebuilt [OF T C o])
    qed
  qed
  from m i show "?matrix \<and> (?quiet \<or> ?frame \<longrightarrow> ?same)" ..
qed

theorem order_zero_mixing_matrix_witness:
  "order (ambi_bin_process_reinit example_ambi_ext example_ambi) = 0
   \<and> current_M (fst (ambi_bin_process example_cfg example_ambi_ext example_ambi
        (\<lambda>ch k. Fin 1) (\<lambda>ch k. Fin 0) 1 2 4 1)) 0 1 0 = (Fin 1, Fin 0)
   \<and> current_M (fst (ambi_bin_process example_cfg example_ambi_ext
        (example_ambi\<lparr>yaw := Fin 1, pitch := Fin 2, roll := Fin 3\<rparr>)
        (\<lambda>ch k. Fin 1) (\<lambda>ch k. Fin 0) 1 2 4 1)) 0 1 0 = (Fin 1, Fin 0)
   \<and> current_M (fst (ambi_bin_process example_cfg example_ambi_ext
        (example_ambi\<lparr>reInitCodec := 1, yaw := Fin 1, pitch := Fin 2, roll := Fin 3\<rparr>)
        (\<lambda>ch k. Fin 1) (\<lambda>ch k. Fin 0) 1 2 4 1)) 0 1 0 = (Fin 1, Fin 0)"
  using order_zero_mixing_matrix [where cfg = example_cfg and ext = example_ambi_ext
      and s = example_ambi and inputs = "\<lambda>ch k. Fin 1" and outputs = "\<lambda>ch k. Fin 0"
      and nInputs = 1 and nOutputs = 2 and nSamples = 4 and isPlaying = 1
      and y = "Fin 1" and p = "Fin 2" and r = "Fin 3"]
    order_zero_mixing_matrix [where cfg = example_cfg and ext = example_ambi_ext
      and s = "example_ambi\<lparr>reInitCodec := 1\<rparr>"
      and inputs = "\<lambda>ch k. Fin 1" and outputs = "\<lambda>ch k. Fin 0"
      and nInputs = 1 and nOutputs = 2 and nSamples = 4 and isPlaying = 1
      and y = "Fin 1" and p = "Fin 2" and r = "Fin 3"]
  by (simp add: example_defs ambi_bin_process_reinit_def cmplxf_def)



lemma example_cfg_fields:
  "FRAME_SIZE example_cfg = 4" "HOP_SIZE example_cfg = 2" "TIME_SLOTS example_cfg = 2"
  "HYBRID_BANDS example_cfg = 1" "NUM_EARS example_cfg = 2" "MAX_NUM_SH_SIGNALS example_cfg = 4"
  "MAX_SH_ORDER example_cfg = 1" "MAX_NUM_INPUTS example_cfg = 4" "NORM_N3D example_cfg = 1"
  "NORM_SN3D example_cfg = 2" "ENABLE_FADE_IN_OUT example_cfg = False" "APPLE example_cfg = False"
  by (simp_all add: example_cfg_def)



section \<open>The binauraliser's source sum and scaling\<close>

lemma source_sum_Suc:
  "source_sum (Suc n) x h = ccaddf (source_sum n x h) (ccmulf (x n) (h n))"
  by (simp add: source_sum_def)

lemma source_sum_cong:
  "(\<And>ch. ch < n \<Longrightarrow> x ch = x' ch \<and> h ch = h' ch) \<Longrightarrow> source_sum n x h = source_sum n x' h'"
  by (induction n) (simp_all add: source_sum_Suc, simp add: source_sum_def)

lemma binauraliser_apply_source_frame:
  "inputframeTF (binauraliser_apply_source cfg ext er ch p) = inputframeTF p"
  "c \<noteq> ch \<Longrightarrow> hrtf_interp (binauraliser_apply_source cfg ext er ch p) c = hrtf_interp p c"
  "c \<noteq> ch \<Longrightarrow> recalc_hrtf_interpFLAG (binauraliser_apply_source cfg ext er ch p) c
                = recalc_hrtf_interpFLAG p c"
  "src_dirs_deg (binauraliser_apply_source cfg ext er ch p) = src_dirs_deg p"
  "src_dirs_rot_deg (binauraliser_apply_source cfg ext er ch p) = src_dirs_rot_deg p"
  by (simp_all add: binauraliser_apply_source_def Let_def)


lemma binauraliser_apply_source_out:
  "outputframeTF (binauraliser_apply_source cfg ext er ch p) band ear t =
     (if band < HYBRID_BANDS cfg \<and> ear < NUM_EARS cfg \<and> t < TIME_SLOTS cfg
      then ccaddf (outputframeTF p band ear t)
             (ccmulf (inputframeTF p band ch t)
                     (hrtf_interp (binauraliser_apply_source cfg ext er ch p) ch band ear))
      else outputframeTF p band ear t)"
  by (simp add: binauraliser_apply_source_def Let_def for_cells_apply)

lemma binauraliser_sources_loop:
  "outputframeTF p band ear t = czero \<Longrightarrow>
   inputframeTF (for_loop 0 n (binauraliser_apply_source cfg ext er) p) = inputframeTF p
   \<and> outputframeTF (for_loop 0 n (binauraliser_apply_source cfg ext er) p) band ear t =
       (if band < HYBRID_BANDS cfg \<and> ear < NUM_EARS cfg \<and> t < TIME_SLOTS cfg
        then source_sum n (\<lambda>ch. inputframeTF p band ch t)
               (\<lambda>ch. hrtf_interp (for_loop 0 n (binauraliser_apply_source cfg ext er) p) ch band ear)
        else czero)"
proof (induction n)
  case 0
  then show ?case by (simp add: for_loop_empty source_sum_def)
next
  case (Suc n)
  let ?q = "for_loop 0 n (binauraliser_apply_source cfg ext er) p"
  let ?q' = "binauraliser_apply_source cfg ext er n ?q"
  have st: "for_loop 0 (Suc n) (binauraliser_apply_source cfg ext er) p = ?q'"
    by (simp add: for_loop_Suc)
  have in_eq: "inputframeTF ?q = inputframeTF p" using Suc by simp
  have same: "source_sum n (\<lambda>ch. inputframeTF p band ch t) (\<lambda>ch. hrtf_interp ?q' ch band ear)
            = source_sum n (\<lambda>ch. inputframeTF p band ch t) (\<lambda>ch. hrtf_interp ?q ch band ear)"
    by (rule source_sum_cong) (simp add: binauraliser_apply_source_frame)
  show ?case
    unfolding st
    using Suc
    by (simp add: binauraliser_apply_source_out binauraliser_apply_source_frame(1)
        source_sum_Suc same in_eq)
qed



lemma binauraliser_scale_apply:
  "binauraliser_scale cfg nSrc out band ear t =
     (if band < HYBRID_BANDS cfg \<and> ear < NUM_EARS cfg \<and> t < TIME_SLOTS cfg
      then crmulf (out band ear t) (fround (fdiv (Fin 1) (fround (sqrtf (float_of_int nSrc)))))
      else out band ear t)"
  by (simp add: binauraliser_scale_def for_cells_apply)

lemma binauraliser_rotate_frame:
  "inputframeTF (binauraliser_rotate ext nS p) = inputframeTF p"
  "hrtf_interp (binauraliser_rotate ext nS p) = hrtf_interp p"
  "src_dirs_deg (binauraliser_rotate ext nS p) = src_dirs_deg p"
  by (simp_all add: binauraliser_rotate_def Let_def)

lemma binauraliser_main_playing:
  assumes "isPlaying \<noteq> 0" "band < HYBRID_BANDS cfg" "ear < NUM_EARS cfg" "t < TIME_SLOTS cfg"
  shows "inputframeTF (binauraliser_main cfg ext nSrc er isPlaying p) = inputframeTF p
       \<and> outputframeTF (binauraliser_main cfg ext nSrc er isPlaying p) band ear t =
           crmulf (source_sum (nat nSrc) (\<lambda>ch. inputframeTF p band ch t)
                     (\<lambda>ch. hrtf_interp (binauraliser_main cfg ext nSrc er isPlaying p) ch band ear))
                  (fround (fdiv (Fin 1) (fround (sqrtf (float_of_int nSrc)))))"
proof -
  define p1 where "p1 = (if er \<noteq> 0 \<and> recalc_M_rotFLAG p \<noteq> 0
                   then binauraliser_rotate ext (nat nSrc) p else p)"
  define p2 where "p2 = p1\<lparr>outputframeTF := (\<lambda>band ear t. czero)\<rparr>"
  define p3 where "p3 = for_loop 0 (nat nSrc) (binauraliser_apply_source cfg ext er) p2"
  have m: "binauraliser_main cfg ext nSrc er isPlaying p =
             p3\<lparr>outputframeTF := binauraliser_scale cfg nSrc (outputframeTF p3)\<rparr>"
    using assms(1) by (simp add: binauraliser_main_def Let_def p1_def p2_def p3_def)
  have i2: "inputframeTF p2 = inputframeTF p"
    by (simp add: p2_def p1_def binauraliser_rotate_frame)
  have z: "outputframeTF p2 band ear t = czero" by (simp add: p2_def)
  from binauraliser_sources_loop [OF z, of "nat nSrc" cfg ext er]
  have l: "inputframeTF p3 = inputframeTF p2"
    "outputframeTF p3 band ear t =
       source_sum (nat nSrc) (\<lambda>ch. inputframeTF p2 band ch t) (\<lambda>ch. hrtf_interp p3 ch band ear)"
    using assms by (simp_all add: p3_def)
  show ?thesis
    unfolding m using assms l i2 by (simp add: binauraliser_scale_apply)
qed


lemma binauraliser_process_block_fields:
  "outputframeTF (fst (binauraliser_process_block cfg ext pData inputs outputs nInputs nOutputs isPlaying))
     = outputframeTF (binauraliser_main cfg ext (nSources pData) (enableRotation pData) isPlaying
          (binauraliser_analyse cfg ext pData inputs nInputs))"
  "inputframeTF (fst (binauraliser_process_block cfg ext pData inputs outputs nInputs nOutputs isPlaying))
     = inputframeTF (binauraliser_main cfg ext (nSources pData) (enableRotation pData) isPlaying
          (binauraliser_analyse cfg ext pData inputs nInputs))"
  "hrtf_interp (fst (binauraliser_process_block cfg ext pData inputs outputs nInputs nOutputs isPlaying))
     = hrtf_interp (binauraliser_main cfg ext (nSources pData) (enableRotation pData) isPlaying
          (binauraliser_analyse cfg ext pData inputs nInputs))"
  by (simp_all add: binauraliser_process_block_def Let_def)


lemma binauraliser_process_block_out:
  assumes "isPlaying \<noteq> 0" "band < HYBRID_BANDS cfg" "ear < NUM_EARS cfg" "t < TIME_SLOTS cfg"
    and "res = fst (binauraliser_process_block cfg ext pData inputs outputs nInputs nOutputs isPlaying)"
  shows "outputframeTF res band ear t =
           crmulf (source_sum (nat (nSources pData)) (\<lambda>ch. inputframeTF res band ch t)
                     (\<lambda>ch. hrtf_interp res ch band ear))
                  (fround (fdiv (Fin 1) (fround (sqrtf (float_of_int (nSources pData))))))"
  using binauraliser_main_playing [OF assms(1-4), of ext "nSources pData" "enableRotation pData"
      "binauraliser_analyse cfg ext pData inputs nInputs"]
  by (simp add: assms(5) binauraliser_process_block_fields)














lemma binauraliser_no_sources:
  assumes "nSamples = int (FRAME_SIZE cfg)"
    "hrtf_fb (binauraliser_process_reinit cfg ext hBin) \<noteq> None"
    "b_reInitTFT (binauraliser_process_reinit cfg ext hBin) = 0"
    "reInitHRTFsAndGainTables (binauraliser_process_reinit cfg ext hBin) = 0"
    "isPlaying \<noteq> 0"
    "nSources (binauraliser_process_reinit cfg ext hBin) = 0"
    "band < HYBRID_BANDS cfg" "ear < NUM_EARS cfg" "t < TIME_SLOTS cfg"
  shows "outputframeTF
           (fst (binauraliser_process cfg ext hBin inputs outputs nInputs nOutputs nSamples isPlaying))
           band ear t = (NaN, NaN)"
proof -
  have pr: "fst (binauraliser_process cfg ext hBin inputs outputs nInputs nOutputs nSamples isPlaying)
      = fst (binauraliser_process_block cfg ext
          (binauraliser_process_reinit cfg ext hBin) inputs outputs nInputs nOutputs isPlaying)"
    using assms(1-4) by (simp add: binauraliser_process_def Let_def)
  show ?thesis
    using binauraliser_process_block_out [OF assms(5) assms(7-9) pr] assms(6)
    by (simp add: source_sum_def float_of_int_def crmulf_def czero_def inf_of_sign_def
        float_round_0)
qed

text \<open>
  C7. \<^verbatim>\<open>binauraliser_setNumSources\<close> accepts 0; once the filterbank rebuild has taken
  the new count over, a valid playing block has \<^verbatim>\<open>nSources = 0\<close>. The scaling step then
  multiplies the zeroed tensor by \<open>1 / sqrt 0\<close>, an infinity: every entry of
  \<^verbatim>\<open>outputframeTF\<close> is NaN, and the example's filterbank hands the NaN on to the output
  one hop later.
\<close>

theorem no_sources_nan:
  "nSources (binauraliser_process_reinit example_cfg example_bin_ext
      (binauraliser_setNumSources example_cfg example_bin 0)) = 0
   \<and> fdiv (Fin 1) (sqrtf (float_of_int 0)) = PInf
   \<and> fround (fdiv (Fin 1) (fround (sqrtf (float_of_int 0)))) = PInf
   \<and> outputframeTF (fst (binauraliser_process example_cfg example_bin_ext
        (binauraliser_setNumSources example_cfg example_bin 0)
        (\<lambda>ch k. Fin 1) (\<lambda>ch k. Fin 0) 1 2 4 1)) 0 0 0 = (NaN, NaN)
   \<and> snd (binauraliser_process example_cfg example_bin_ext
        (binauraliser_setNumSources example_cfg example_bin 0)
        (\<lambda>ch k. Fin 1) (\<lambda>ch k. Fin 0) 1 2 4 1) 0 2 = NaN"
proof -
  let ?b = "binauraliser_setNumSources example_cfg example_bin 0"
  let ?p = "binauraliser_process_reinit example_cfg example_bin_ext ?b"
  have st: "nSources ?p = 0" "hrtf_fb ?p \<noteq> None" "b_reInitTFT ?p = 0"
    "reInitHRTFsAndGainTables ?p = 0"
    by (simp_all add: binauraliser_process_reinit_def binauraliser_reinit_TFT_def
        binauraliser_setNumSources_def Let_def example_cfg_fields example_bin_def example_bin_ext_def)
  have fs: "(4::int) = int (FRAME_SIZE example_cfg)" by (simp add: example_cfg_fields)
  have one: "(1::int) \<noteq> 0" by simp
  have nan: "outputframeTF (fst (binauraliser_process example_cfg example_bin_ext ?b
        (\<lambda>ch k. Fin 1) (\<lambda>ch k. Fin 0) 1 2 4 1)) 0 0 0 = (NaN, NaN)"
    by (rule binauraliser_no_sources [OF fs st(2) st(3) st(4) one st(1)])
       (simp_all add: example_cfg_fields)
  have inf: "fdiv (Fin 1) (sqrtf (float_of_int 0)) = PInf"
    by (simp add: float_of_int_def inf_of_sign_def)
  have inf': "fround (fdiv (Fin 1) (fround (sqrtf (float_of_int 0)))) = PInf"
    by (simp add: float_of_int_def inf_of_sign_def float_round_0)
  have out: "snd (binauraliser_process example_cfg example_bin_ext ?b
        (\<lambda>ch k. Fin 1) (\<lambda>ch k. Fin 0) 1 2 4 1) 0 2 = NaN"
    by (simp add: binauraliser_process_def binauraliser_process_block_def Let_def
      binauraliser_process_reinit_def binauraliser_setNumSources_def
      binauraliser_reinit_TFT_def binauraliser_inverse_TFT_def binauraliser_analyse_def
      binauraliser_forward_TFT_def binauraliser_main_def binauraliser_load_TD_def
      binauraliser_scale_def
      example_cfg_fields example_bin_def example_bin_ext_def example_stft_def
      for_loop_0_2 for_loop_0_1 for_loop_empty for_cells_apply write_hop_apply split_def
      memcpy_n_apply memset_n_apply float_of_int_def crmulf_def czero_def inf_of_sign_def
      cmplxf_def crealf_def cimagf_def float_round_0)
  from st(1) inf inf' nan out show ?thesis by blast
qed

end
